theory Spec2Isabelle
  imports Main "HOL-Library.AList"
begin

section \<open>JavaScript values\<close>

text \<open>
  The handlers of FilmleAPI move JSON around: calendar rows read from the hosted table,
  payloads answered by TheMovieDB, and the objects handed to \<open>res.json\<close>. A value is
  what \<open>JSON.parse\<close> can produce, plus \<open>undefined\<close> (the value of a property that is
  not there). An object is an association list in insertion order. Numbers are integers:
  the only numbers a handler inspects are identifiers, which are tested for truthiness and
  interpolated into a URL; every other number is carried through unread.
\<close>

datatype jsval =
    JUndefined
  | JNull
  | JBool bool
  | JNum int
  | JStr string
  | JArr "jsval list"
  | JObj "(string \<times> jsval) list"

type_synonym row = "(string \<times> jsval) list"

text \<open>\<open>!v\<close> is \<open>\<not> truthy v\<close>.\<close>

fun truthy :: "jsval \<Rightarrow> bool" where
  "truthy JUndefined = False"
| "truthy JNull = False"
| "truthy (JBool b) = b"
| "truthy (JNum n) = (n \<noteq> 0)"
| "truthy (JStr s) = (s \<noteq> [])"
| "truthy (JArr xs) = True"
| "truthy (JObj fs) = True"

text \<open>\<open>a || b\<close>\<close>

definition js_or :: "jsval \<Rightarrow> jsval \<Rightarrow> jsval" where
  "js_or a b = (if truthy a then a else b)"

text \<open>\<open>row.k\<close> on a calendar row: \<open>undefined\<close> when the column is not there.\<close>

definition field :: "row \<Rightarrow> string \<Rightarrow> jsval" where
  "field r k = (case map_of r k of None \<Rightarrow> JUndefined | Some v \<Rightarrow> v)"

text \<open>\<open>Object.keys(row)\<close>\<close>

definition object_keys :: "row \<Rightarrow> jsval" where
  "object_keys r = JArr (map (\<lambda>kv. JStr (fst kv)) r)"

text \<open>\<open>typeof v\<close>\<close>

fun js_typeof :: "jsval \<Rightarrow> string" where
  "js_typeof JUndefined = ''undefined''"
| "js_typeof JNull = ''object''"
| "js_typeof (JBool b) = ''boolean''"
| "js_typeof (JNum n) = ''number''"
| "js_typeof (JStr s) = ''string''"
| "js_typeof (JArr xs) = ''object''"
| "js_typeof (JObj fs) = ''object''"

subsection \<open>Strings\<close>

text \<open>\<open>s.split('T')[0]\<close>: the part of \<open>s\<close> before its first \<open>T\<close>, all of \<open>s\<close> when it has none.\<close>

definition split_T_0 :: "string \<Rightarrow> string" where
  "split_T_0 s = takeWhile (\<lambda>c. c \<noteq> CHR ''T'') s"

primrec starts_with :: "string \<Rightarrow> string \<Rightarrow> bool" where
  "starts_with s [] = True"
| "starts_with s (p # ps) = (case s of [] \<Rightarrow> False | c # cs \<Rightarrow> c = p \<and> starts_with cs ps)"

text \<open>\<open>s.includes(sub)\<close>\<close>

primrec str_includes :: "string \<Rightarrow> string \<Rightarrow> bool" where
  "str_includes [] sub = (sub = [])"
| "str_includes (c # cs) sub = (starts_with (c # cs) sub \<or> str_includes cs sub)"

fun string_of_nat :: "nat \<Rightarrow> string" where
  "string_of_nat n =
     (if n < 10 then [char_of (48 + n)]
      else string_of_nat (n div 10) @ [char_of (48 + n mod 10)])"

declare string_of_nat.simps [simp del]

definition string_of_int :: "int \<Rightarrow> string" where
  "string_of_int i = (if i < 0 then CHR ''-'' # string_of_nat (nat (- i)) else string_of_nat (nat i))"

primrec join_comma :: "string list \<Rightarrow> string" where
  "join_comma [] = []"
| "join_comma (s # ss) = (if ss = [] then s else s @ CHR '','' # join_comma ss)"

text \<open>
  A value inside a template literal, \<open>`${v}`\<close>: a string as it is, an integer in decimal
  (below \<open>10^21\<close> in absolute value, where JavaScript switches to exponents), an array as
  its elements joined by commas with \<open>null\<close> and \<open>undefined\<close> left empty.
\<close>

fun to_string_js :: "jsval \<Rightarrow> string" where
  "to_string_js JUndefined = ''undefined''"
| "to_string_js JNull = ''null''"
| "to_string_js (JBool b) = (if b then ''true'' else ''false'')"
| "to_string_js (JNum n) = string_of_int n"
| "to_string_js (JStr s) = s"
| "to_string_js (JArr xs) =
     join_comma (map (\<lambda>x. if x = JUndefined \<or> x = JNull then [] else to_string_js x) xs)"
| "to_string_js (JObj fs) = ''[object Object]''"

subsection \<open>Exceptions\<close>

text \<open>
  What a \<open>catch\<close> block of a handler reads from the value it caught: \<open>error.message\<close> and
  \<open>error.response\<close>, which only an error of the HTTP client carries, and only when the
  service answered.
\<close>

record http_response =
  resp_status :: int
  resp_data :: jsval

record js_error =
  err_message :: string
  err_response :: "http_response option"

definition quoted :: "string \<Rightarrow> string" where
  "quoted k = CHR 0x27 # k @ [CHR 0x27]"

text \<open>The \<open>TypeError\<close> of reading property \<open>k\<close> of \<open>null\<close> or \<open>undefined\<close>.\<close>

definition type_error :: "jsval \<Rightarrow> string \<Rightarrow> js_error" where
  "type_error v k =
     \<lparr>err_message = ''Cannot read properties of '' @ to_string_js v @ '' (reading '' @ quoted k @ '')'',
      err_response = None\<rparr>"

text \<open>The \<open>RangeError\<close> of \<open>toISOString\<close> on an invalid \<open>Date\<close>.\<close>

definition range_error :: js_error where
  "range_error = \<lparr>err_message = ''Invalid time value'', err_response = None\<rparr>"

text \<open>
  \<open>v.k\<close> for the property names the handlers read (none of them is an index, \<open>length\<close>
  or a method): it throws on \<open>null\<close> and \<open>undefined\<close>, finds the field of an object, and
  is \<open>undefined\<close> on everything else.
\<close>

fun get_prop :: "jsval \<Rightarrow> string \<Rightarrow> js_error + jsval" where
  "get_prop JUndefined k = Inl (type_error JUndefined k)"
| "get_prop JNull k = Inl (type_error JNull k)"
| "get_prop (JObj fs) k = Inr (field fs k)"
| "get_prop v k = Inr JUndefined"

text \<open>\<open>v?.k\<close>\<close>

definition opt_prop :: "jsval \<Rightarrow> string \<Rightarrow> jsval" where
  "opt_prop v k = (case get_prop v k of Inl e \<Rightarrow> JUndefined | Inr x \<Rightarrow> x)"

text \<open>
  \<open>{...v}\<close>: the own enumerable properties of \<open>v\<close>; the indices of an array or of a
  string, nothing for the other primitives.
\<close>

fun spread :: "jsval \<Rightarrow> (string \<times> jsval) list" where
  "spread (JObj fs) = fs"
| "spread (JArr xs) = zip (map string_of_nat [0..<length xs]) xs"
| "spread (JStr s) = zip (map string_of_nat [0..<length s]) (map (\<lambda>c. JStr [c]) s)"
| "spread v = []"

section \<open>The world outside the process\<close>

text \<open>
  A handler reads the clock, queries the hosted table through the database client and
  calls TheMovieDB through the HTTP client. The world answers; the handler's result is
  the response it sends together with the trace of the queries and requests it made.
\<close>

record http_request =
  req_url :: string
  req_params :: "(string \<times> jsval) list"

text \<open>
  How an exchange with the service ends for the HTTP client: with an answer of some status
  and body, or with a failure of the transport. The client follows a redirect by itself,
  so the answer is the last one of the exchange: an answer with a 3xx status is one that
  the client could not follow any further.
\<close>

datatype net_result = NetFail string | Answer http_response

text \<open>
  A query of the database client: \<open>from(table).select(columns)\<close>, then optionally
  \<open>.eq(column, value)\<close>, \<open>.limit(n)\<close> and \<open>.maybeSingle()\<close>.
\<close>

record db_query =
  q_table :: string
  q_columns :: string
  q_eq :: "(string \<times> string) option"
  q_limit :: "nat option"
  q_single :: bool

record db_error =
  db_message :: "string option"

text \<open>
  The client resolves to \<open>{ data, error }\<close>: with \<open>maybeSingle\<close>, \<open>data\<close> is one row or
  \<open>null\<close>; without, a list of rows or \<open>null\<close>.
\<close>

record 'a db_result =
  db_data :: "'a option"
  db_err :: "db_error option"

datatype event = DbQuery db_query | HttpGet http_request

record world =
  now_iso :: string
  date_iso :: "jsval \<Rightarrow> string option"
  db_single :: "db_query \<Rightarrow> row db_result"
  db_rows :: "db_query \<Rightarrow> row list db_result"
  tmdb :: "http_request \<Rightarrow> net_result"
  latency :: "http_request \<Rightarrow> nat"
  api_key :: string

text \<open>
  \<open>now_iso\<close> is \<open>new Date().toISOString()\<close>; \<open>date_iso v\<close> is
  \<open>new Date(v).toISOString()\<close>, \<open>None\<close> when the date is invalid and the call throws;
  \<open>latency\<close> is the time a request takes to settle, which decides the error
  \<open>Promise.all\<close> rejects with when both of its requests fail.
\<close>

text \<open>
  The response of a handler: the status (200 when the handler sets none) and, as \<open>body\<close>,
  the value it hands to \<open>res.json\<close>.
\<close>

record reply =
  status :: int
  body :: jsval

text \<open>
  \<open>res.json\<close> writes that value out with \<open>JSON.stringify\<close>. What the client reads back is
  the value without the fields of objects whose value is \<open>undefined\<close>, and with \<open>null\<close> for
  an \<open>undefined\<close> element of an array.
\<close>

fun as_sent :: "jsval \<Rightarrow> jsval" where
  "as_sent (JArr xs) = JArr (map (\<lambda>x. if x = JUndefined then JNull else as_sent x) xs)"
| "as_sent (JObj fs) =
     JObj (map (\<lambda>kv. (fst kv, as_sent (snd kv))) (filter (\<lambda>kv. snd kv \<noteq> JUndefined) fs))"
| "as_sent v = v"

definition sent_body :: "reply \<Rightarrow> jsval" where
  "sent_body r = as_sent (body r)"

definition TMDB_BASE_URL :: string where
  "TMDB_BASE_URL = ''https://api.themoviedb.org/3''"

definition language :: string where
  "language = ''pl-PL''"

text \<open>
  \<open>axios.get(url, { params })\<close>: resolves with the answer that ends the exchange when
  its status is 2xx, rejects with an error carrying that answer otherwise, and with an
  error without a response when the transport fails.
\<close>

definition axios_get :: "world \<Rightarrow> http_request \<Rightarrow> js_error + http_response" where
  "axios_get w req =
     (case tmdb w req of
        NetFail m \<Rightarrow> Inl \<lparr>err_message = m, err_response = None\<rparr>
      | Answer r \<Rightarrow>
          if 200 \<le> resp_status r \<and> resp_status r < 300 then Inr r
          else Inl \<lparr>err_message = ''Request failed with status code '' @ string_of_int (resp_status r),
                    err_response = Some r\<rparr>)"

section \<open>The metadata client\<close>

text \<open>\<open>fetchMovieDetails\<close> of the \<open>/api\<close> server (src/unnamed/part_001).\<close>

definition details_request :: "world \<Rightarrow> string \<Rightarrow> jsval \<Rightarrow> http_request" where
  "details_request w lang movieId =
     \<lparr>req_url = TMDB_BASE_URL @ ''/movie/'' @ to_string_js movieId,
      req_params = [(''api_key'', JStr (api_key w)), (''language'', JStr lang)]\<rparr>"

definition credits_request :: "world \<Rightarrow> jsval \<Rightarrow> http_request" where
  "credits_request w movieId =
     \<lparr>req_url = TMDB_BASE_URL @ ''/movie/'' @ to_string_js movieId @ ''/credits'',
      req_params = [(''api_key'', JStr (api_key w)), (''language'', JStr language)]\<rparr>"

text \<open>
  \<open>{ ...movieResponse.data, cast: creditsResponse.data.cast, crew: creditsResponse.data.crew }\<close>
\<close>

definition combine :: "jsval \<Rightarrow> jsval \<Rightarrow> js_error + jsval" where
  "combine movie_data credits_data =
     (case get_prop credits_data ''cast'' of
        Inl e \<Rightarrow> Inl e
      | Inr cast \<Rightarrow>
          (case get_prop credits_data ''crew'' of
             Inl e \<Rightarrow> Inl e
           | Inr crew \<Rightarrow>
               Inr (JObj (AList.update ''crew'' crew
                           (AList.update ''cast'' cast (spread movie_data))))))"

text \<open>
  \<open>fetchMovieDetails\<close>: both requests are started before either is awaited, so both are
  always in the trace. \<open>Promise.all\<close> rejects with the rejection that comes first.
\<close>

definition fetchMovieDetails :: "world \<Rightarrow> jsval \<Rightarrow> event list \<times> (js_error + jsval)" where
  "fetchMovieDetails w movieId =
     (let r1 = details_request w language movieId;
          r2 = credits_request w movieId
      in ([HttpGet r1, HttpGet r2],
          case axios_get w r1 of
            Inr movieResponse \<Rightarrow>
              (case axios_get w r2 of
                 Inr creditsResponse \<Rightarrow> combine (resp_data movieResponse) (resp_data creditsResponse)
               | Inl e2 \<Rightarrow> Inl e2)
          | Inl e1 \<Rightarrow>
              (case axios_get w r2 of
                 Inr creditsResponse \<Rightarrow> Inl e1
               | Inl e2 \<Rightarrow> if latency w r2 < latency w r1 then Inl e2 else Inl e1)))"

section \<open>The handlers of the \<open>/api\<close> server\<close>

text \<open>The three routes of src/unnamed/part_001.\<close>

text \<open>The \<open>catch\<close> block the three handlers share but for the text of \<open>error\<close>.\<close>

definition catch_reply :: "string \<Rightarrow> js_error \<Rightarrow> reply" where
  "catch_reply what e =
     (case err_response e of
        Some r \<Rightarrow>
          \<lparr>status = resp_status r,
           body = JObj [(''error'', JStr what),
                        (''details'', js_or (opt_prop (resp_data r) ''status_message'')
                                            (JStr (err_message e)))]\<rparr>
      | None \<Rightarrow>
          \<lparr>status = 500,
           body = JObj [(''error'', JStr ''Internal server error''),
                        (''details'', JStr (err_message e))]\<rparr>)"

text \<open>\<open>GET /api/movie/:movie_id\<close>; the path parameter is a string.\<close>

definition api_movie :: "world \<Rightarrow> string \<Rightarrow> event list \<times> reply" where
  "api_movie w movieId =
     (if movieId = [] then
        ([], \<lparr>status = 400,
              body = JObj [(''error'', JStr ''Movie ID is required''),
                           (''example'', JStr ''/movie/550'')]\<rparr>)
      else
        (case fetchMovieDetails w (JStr movieId) of
           (t, Inr movieDetails) \<Rightarrow> (t, \<lparr>status = 200, body = JObj [(''movie'', movieDetails)]\<rparr>)
         | (t, Inl e) \<Rightarrow> (t, catch_reply ''Failed to fetch movie from TheMovieDB'' e)))"

text \<open>\<open>GET /api/search\<close>; \<open>req.query.query\<close> is \<open>undefined\<close> when the parameter is absent.\<close>

definition search_request :: "world \<Rightarrow> jsval \<Rightarrow> http_request" where
  "search_request w query =
     \<lparr>req_url = TMDB_BASE_URL @ ''/search/movie'',
      req_params = [(''api_key'', JStr (api_key w)), (''query'', query),
                    (''language'', JStr language)]\<rparr>"

definition search_body :: "jsval \<Rightarrow> jsval \<Rightarrow> js_error + jsval" where
  "search_body query d =
     (case get_prop d ''results'' of
        Inl e \<Rightarrow> Inl e
      | Inr results \<Rightarrow>
     (case get_prop d ''total_results'' of
        Inl e \<Rightarrow> Inl e
      | Inr total_results \<Rightarrow>
     (case get_prop d ''page'' of
        Inl e \<Rightarrow> Inl e
      | Inr page \<Rightarrow>
     (case get_prop d ''total_pages'' of
        Inl e \<Rightarrow> Inl e
      | Inr total_pages \<Rightarrow>
          Inr (JObj [(''query'', query), (''results'', results),
                     (''total_results'', total_results), (''page'', page),
                     (''total_pages'', total_pages)])))))"

definition api_search :: "world \<Rightarrow> jsval \<Rightarrow> event list \<times> reply" where
  "api_search w query =
     (if \<not> truthy query then
        ([], \<lparr>status = 400,
              body = JObj [(''error'', JStr ''Query parameter is required''),
                           (''example'', JStr ''/search?query=batman'')]\<rparr>)
      else
        (let req = search_request w query in
         ([HttpGet req],
          case axios_get w req of
            Inl e \<Rightarrow> catch_reply ''Failed to search movies from TheMovieDB'' e
          | Inr tmdbResponse \<Rightarrow>
              (case search_body query (resp_data tmdbResponse) of
                 Inl e \<Rightarrow> catch_reply ''Failed to search movies from TheMovieDB'' e
               | Inr b \<Rightarrow> \<lparr>status = 200, body = b\<rparr>))))"

text \<open>The query for today's row: \<open>.eq('date', currentDate).maybeSingle()\<close>.\<close>

definition calendar_query :: "string \<Rightarrow> string \<Rightarrow> string \<Rightarrow> db_query" where
  "calendar_query table columns currentDate =
     \<lparr>q_table = table, q_columns = columns, q_eq = Some (''date'', currentDate),
      q_limit = None, q_single = True\<rparr>"

text \<open>\<open>error.message\<close> of a database error, as a value.\<close>

definition message_value :: "db_error \<Rightarrow> jsval" where
  "message_value e = (case db_message e of None \<Rightarrow> JUndefined | Some m \<Rightarrow> JStr m)"

definition database_error :: "jsval \<Rightarrow> reply" where
  "database_error details =
     \<lparr>status = 500, body = JObj [(''error'', JStr ''Database error''), (''details'', details)]\<rparr>"

definition no_movie :: reply where
  "no_movie = \<lparr>status = 404, body = JObj [(''error'', JStr ''No movie found for today'')]\<rparr>"

text \<open>\<open>GET /api/mystery_movie\<close>\<close>

definition api_mystery_movie :: "world \<Rightarrow> event list \<times> reply" where
  "api_mystery_movie w =
     (let currentDate = split_T_0 (now_iso w);
          q = calendar_query ''calendar'' ''*'' currentDate;
          r = db_single w q
      in case db_err r of
           Some error \<Rightarrow> ([DbQuery q], database_error (message_value error))
         | None \<Rightarrow>
             (case db_data r of
                None \<Rightarrow> ([DbQuery q], no_movie)
              | Some data \<Rightarrow>
                  if \<not> truthy (field data ''movie'') then ([DbQuery q], no_movie)
                  else
                    (case fetchMovieDetails w (field data ''movie'') of
                       (t, Inr movieDetails) \<Rightarrow>
                         (DbQuery q # t,
                          \<lparr>status = 200,
                           body = JObj [(''date'', JStr currentDate),
                                        (''quote_en'', field data ''quote_en''),
                                        (''quote_pl'', field data ''quote_pl''),
                                        (''description'', field data ''description''),
                                        (''movie'', movieDetails)]\<rparr>)
                     | (t, Inl e) \<Rightarrow>
                         (DbQuery q # t, catch_reply ''Failed to fetch movie from TheMovieDB'' e))))"

section \<open>The first \<open>/mystery_movie\<close> handler\<close>

text \<open>
  The handler of src/unnamed/part_000: it selects the column \<open>movie\<close> alone and asks
  TheMovieDB for the details in \<open>en-US\<close>.
\<close>

definition mystery_movie_simple :: "world \<Rightarrow> event list \<times> reply" where
  "mystery_movie_simple w =
     (let currentDate = split_T_0 (now_iso w);
          q = calendar_query ''calendar'' ''movie'' currentDate;
          r = db_single w q
      in case db_err r of
           Some error \<Rightarrow> ([DbQuery q], database_error (message_value error))
         | None \<Rightarrow>
             (case db_data r of
                None \<Rightarrow> ([DbQuery q], no_movie)
              | Some data \<Rightarrow>
                  if \<not> truthy (field data ''movie'') then ([DbQuery q], no_movie)
                  else
                    (let req = details_request w ''en-US'' (field data ''movie'') in
                     ([DbQuery q, HttpGet req],
                      case axios_get w req of
                        Inr tmdbResponse \<Rightarrow>
                          \<lparr>status = 200,
                           body = JObj [(''date'', JStr currentDate),
                                        (''movie'', resp_data tmdbResponse)]\<rparr>
                      | Inl e \<Rightarrow> catch_reply ''Failed to fetch movie from TheMovieDB'' e))))"

section \<open>The \<open>/mystery_movie\<close> handler with fallbacks\<close>

text \<open>The handler of src/server.js, in the order of its statements.\<close>

text \<open>
  \<open>error.message?.includes('relation') || error.message?.includes('does not exist')\<close>
\<close>

definition relation_missing :: "db_error \<Rightarrow> bool" where
  "relation_missing e =
     (case db_message e of
        None \<Rightarrow> False
      | Some m \<Rightarrow> str_includes m ''relation'' \<or> str_includes m ''does not exist'')"

text \<open>
  The primary query and, when its error says that the table is missing, the same query
  on \<open>Calendar\<close>; the result is the trace with \<open>data\<close> and \<open>error\<close> as they stand afterwards.
\<close>

definition lookup_today :: "world \<Rightarrow> string \<Rightarrow> event list \<times> row option \<times> db_error option" where
  "lookup_today w currentDate =
     (let q = calendar_query ''calendar'' ''*'' currentDate;
          r = db_single w q
      in case db_err r of
           None \<Rightarrow> ([DbQuery q], db_data r, None)
         | Some error \<Rightarrow>
             if relation_missing error then
               (let q2 = calendar_query ''Calendar'' ''*'' currentDate;
                    r2 = db_single w q2
                in case db_err r2 of
                     None \<Rightarrow> ([DbQuery q, DbQuery q2], db_data r2, None)
                   | Some error2 \<Rightarrow> ([DbQuery q, DbQuery q2], db_data r, Some error))
             else ([DbQuery q], db_data r, Some error))"

text \<open>\<open>from('calendar').select('*')\<close>, all rows.\<close>

definition all_rows_query :: db_query where
  "all_rows_query =
     \<lparr>q_table = ''calendar'', q_columns = ''*'', q_eq = None, q_limit = None, q_single = False\<rparr>"

text \<open>The callback of \<open>allData.find\<close>.\<close>

definition entry_matches :: "world \<Rightarrow> string \<Rightarrow> row \<Rightarrow> js_error + bool" where
  "entry_matches w currentDate entry =
     (let entryDate = field entry ''date'' in
      if \<not> truthy entryDate then Inr False
      else
        (case entryDate of
           JStr s \<Rightarrow> Inr (split_T_0 s = currentDate)
         | _ \<Rightarrow>
             (case date_iso w entryDate of
                None \<Rightarrow> Inl range_error
              | Some isoString \<Rightarrow> Inr (split_T_0 isoString = currentDate))))"

text \<open>\<open>xs.find(p)\<close> with a callback that may throw.\<close>

fun find_js :: "('a \<Rightarrow> js_error + bool) \<Rightarrow> 'a list \<Rightarrow> js_error + 'a option" where
  "find_js p [] = Inr None"
| "find_js p (x # xs) =
     (case p x of
        Inl e \<Rightarrow> Inl e
      | Inr b \<Rightarrow> if b then Inr (Some x) else find_js p xs)"

text \<open>
  Where a step of the handler leaves it: on to the next statement, out through a
  \<open>return res...\<close>, or into the \<open>catch\<close> block.
\<close>

datatype 'a flow = Continue 'a | Return reply | Throw js_error

definition unknown_or :: "jsval \<Rightarrow> jsval" where
  "unknown_or m = js_or m (JStr ''Unknown error'')"

text \<open>The block under \<open>if (!data && !error)\<close>; its result is \<open>data\<close> afterwards.\<close>

definition scan_all ::
  "world \<Rightarrow> string \<Rightarrow> row option \<Rightarrow> db_error option \<Rightarrow> event list \<times> row option flow" where
  "scan_all w currentDate data error =
     (if data = None \<and> error = None then
        (let ra = db_rows w all_rows_query in
         ([DbQuery all_rows_query],
          case db_err ra of
            Some allError \<Rightarrow> Return (database_error (unknown_or (message_value allError)))
          | None \<Rightarrow>
              (case db_data ra of
                 None \<Rightarrow> Continue data
               | Some allData \<Rightarrow>
                   if 0 < length allData then
                     (case find_js (entry_matches w currentDate) allData of
                        Inl e \<Rightarrow> Throw e
                      | Inr found \<Rightarrow> Continue found)
                   else Continue data)))
      else ([], Continue data))"

text \<open>\<open>from('calendar').select('*').limit(10)\<close>, read for the body of the 404.\<close>

definition debug_query :: db_query where
  "debug_query =
     \<lparr>q_table = ''calendar'', q_columns = ''*'', q_eq = None, q_limit = Some 10, q_single = False\<rparr>"

definition not_found_debug :: "string \<Rightarrow> row list option \<Rightarrow> reply" where
  "not_found_debug currentDate allData =
     \<lparr>status = 404,
      body = JObj
        [(''error'', JStr ''No movie found for today''),
         (''searchedDate'', JStr currentDate),
         (''debug'', JObj
            [(''totalEntries'',
                (case allData of None \<Rightarrow> JNum 0 | Some rows \<Rightarrow> js_or (JNum (int (length rows))) (JNum 0))),
             (''sampleEntries'',
                (case allData of None \<Rightarrow> JArr [] | Some rows \<Rightarrow> JArr (map JObj (take 3 rows)))),
             (''entryDates'',
                (case allData of
                   None \<Rightarrow> JArr []
                 | Some rows \<Rightarrow>
                     JArr (map (\<lambda>e. JObj [(''date'', field e ''date''),
                                           (''type'', JStr (js_typeof (field e ''date'')))]) rows)))])]\<rparr>"

text \<open>\<open>data.movie_id || data.movieId || data.movieid || data.movie\<close>\<close>

definition movie_id_of :: "row \<Rightarrow> jsval" where
  "movie_id_of data =
     js_or (js_or (js_or (field data ''movie_id'') (field data ''movieId''))
                  (field data ''movieid''))
           (field data ''movie'')"

definition no_id_column :: "row \<Rightarrow> reply" where
  "no_id_column data =
     \<lparr>status = 500,
      body = JObj [(''error'', JStr ''Movie ID column not found''),
                   (''availableFields'', object_keys data)]\<rparr>"

text \<open>The handler from \<open>if (error)\<close> to the end of the \<open>try\<close> block.\<close>

definition respond_today ::
  "world \<Rightarrow> string \<Rightarrow> row option \<Rightarrow> db_error option \<Rightarrow> event list \<times> (js_error + reply)" where
  "respond_today w currentDate data error =
     (case error of
        Some err \<Rightarrow> ([], Inr (database_error (unknown_or (message_value err))))
      | None \<Rightarrow>
          (case data of
             None \<Rightarrow>
               ([DbQuery debug_query],
                Inr (not_found_debug currentDate (db_data (db_rows w debug_query))))
           | Some d \<Rightarrow>
               (let movieId = movie_id_of d in
                if \<not> truthy movieId then ([], Inr (no_id_column d))
                else
                  (let req = details_request w ''en-US'' movieId in
                   ([HttpGet req],
                    case axios_get w req of
                      Inl e \<Rightarrow> Inl e
                    | Inr tmdbResponse \<Rightarrow>
                        Inr \<lparr>status = 200,
                             body = JObj [(''date'', JStr currentDate),
                                          (''movie'', resp_data tmdbResponse)]\<rparr>)))))"

text \<open>Its \<open>catch\<close> block falls back to \<open>'Unknown error'\<close> for an empty message.\<close>

definition catch_reply_fallback :: "js_error \<Rightarrow> reply" where
  "catch_reply_fallback e =
     (case err_response e of
        Some r \<Rightarrow>
          \<lparr>status = resp_status r,
           body = JObj [(''error'', JStr ''Failed to fetch movie from TheMovieDB''),
                        (''details'', unknown_or (js_or (opt_prop (resp_data r) ''status_message'')
                                                        (JStr (err_message e))))]\<rparr>
      | None \<Rightarrow>
          \<lparr>status = 500,
           body = JObj [(''error'', JStr ''Internal server error''),
                        (''details'', unknown_or (JStr (err_message e)))]\<rparr>)"

definition mystery_movie :: "world \<Rightarrow> event list \<times> reply" where
  "mystery_movie w =
     (let currentDate = split_T_0 (now_iso w) in
      case lookup_today w currentDate of
        (t1, data1, error) \<Rightarrow>
          (case scan_all w currentDate data1 error of
             (t2, Return rep) \<Rightarrow> (t1 @ t2, rep)
           | (t2, Throw e) \<Rightarrow> (t1 @ t2, catch_reply_fallback e)
           | (t2, Continue data) \<Rightarrow>
               (case respond_today w currentDate data error of
                  (t3, Inr rep) \<Rightarrow> (t1 @ t2 @ t3, rep)
                | (t3, Inl e) \<Rightarrow> (t1 @ t2 @ t3, catch_reply_fallback e))))"

section \<open>A concrete world\<close>

text \<open>
  A small world to run the handlers in: the clock stands at 15 January 2024, TheMovieDB
  knows movie 550 and its credits, has the details of 551 but not its credits, drops the
  connection on the credits of 7 and on the details of 8, and answers 404 to everything
  else. The database is a parameter.
\<close>

definition movie_550 :: jsval where
  "movie_550 = JObj [(''id'', JNum 550), (''title'', JStr ''Fight Club'')]"

definition credits_550 :: jsval where
  "credits_550 =
     JObj [(''id'', JNum 550), (''cast'', JArr [JStr ''Edward Norton'']),
           (''crew'', JArr [JStr ''David Fincher''])]"

definition search_page :: jsval where
  "search_page =
     JObj [(''page'', JNum 1), (''results'', JArr [movie_550]), (''total_pages'', JNum 1),
           (''total_results'', JNum 1)]"

definition not_found_payload :: jsval where
  "not_found_payload =
     JObj [(''status_code'', JNum 34),
           (''status_message'', JStr ''The resource you requested could not be found.'')]"

definition example_tmdb :: "http_request \<Rightarrow> net_result" where
  "example_tmdb req =
     (if req_url req = ''https://api.themoviedb.org/3/movie/550''
        then Answer \<lparr>resp_status = 200, resp_data = movie_550\<rparr>
      else if req_url req = ''https://api.themoviedb.org/3/movie/550/credits''
        then Answer \<lparr>resp_status = 200, resp_data = credits_550\<rparr>
      else if req_url req = ''https://api.themoviedb.org/3/movie/551''
        then Answer \<lparr>resp_status = 200, resp_data = movie_550\<rparr>
      else if req_url req = ''https://api.themoviedb.org/3/movie/7/credits''
        then NetFail ''socket hang up''
      else if req_url req = ''https://api.themoviedb.org/3/movie/8''
        then NetFail ''socket hang up''
      else if req_url req = ''https://api.themoviedb.org/3/movie/8/credits''
        then Answer \<lparr>resp_status = 200, resp_data = credits_550\<rparr>
      else if req_url req = ''https://api.themoviedb.org/3/search/movie''
        then Answer \<lparr>resp_status = 200, resp_data = search_page\<rparr>
      else Answer \<lparr>resp_status = 404, resp_data = not_found_payload\<rparr>)"

definition example_latency :: "http_request \<Rightarrow> nat" where
  "example_latency req =
     (if req_url req = ''https://api.themoviedb.org/3/movie/7/credits'' then 1 else 2)"

text \<open>
  \<open>new Date(v).toISOString()\<close> in this world. A number is a count of milliseconds since
  1 January 1970 UTC, at most \<open>8.64 * 10^15\<close> either way; the date of a day count is
  found in the proleptic Gregorian calendar, and a year outside 0 to 9999 is written with
  a sign and six digits. \<open>true\<close>, \<open>false\<close> and \<open>null\<close> count as 1, 0 and 0. An object makes an
  invalid date, and so does \<open>undefined\<close>. Strings are not parsed here: the handler never
  asks for the date of a string, and this world has no row dated by an array.
\<close>

definition pad :: "nat \<Rightarrow> nat \<Rightarrow> string" where
  "pad width n = replicate (width - length (string_of_nat n)) CHR ''0'' @ string_of_nat n"

definition civil_from_days :: "int \<Rightarrow> int \<times> int \<times> int" where
  "civil_from_days z0 =
     (let z = z0 + 719468;
          era = z div 146097;
          doe = z mod 146097;
          yoe = (doe - doe div 1460 + doe div 36524 - doe div 146096) div 365;
          doy = doe - (365 * yoe + yoe div 4 - yoe div 100);
          mp = (5 * doy + 2) div 153;
          d = doy - (153 * mp + 2) div 5 + 1;
          m = (if mp < 10 then mp + 3 else mp - 9);
          y = yoe + era * 400 + (if m \<le> 2 then 1 else 0)
      in (y, m, d))"

definition iso_of_ms :: "int \<Rightarrow> string option" where
  "iso_of_ms t =
     (if 8640000000000000 < \<bar>t\<bar> then None
      else
        (let ms = t mod 86400000 in
         case civil_from_days (t div 86400000) of
           (y, m, d) \<Rightarrow>
             Some ((if 0 \<le> y \<and> y \<le> 9999 then pad 4 (nat y)
                    else (if y < 0 then ''-'' else ''+'') @ pad 6 (nat \<bar>y\<bar>))
                   @ ''-'' @ pad 2 (nat m) @ ''-'' @ pad 2 (nat d)
                   @ ''T'' @ pad 2 (nat (ms div 3600000))
                   @ '':'' @ pad 2 (nat (ms div 60000 mod 60))
                   @ '':'' @ pad 2 (nat (ms div 1000 mod 60))
                   @ ''.'' @ pad 3 (nat (ms mod 1000)) @ ''Z'')))"

definition example_date_iso :: "jsval \<Rightarrow> string option" where
  "example_date_iso v =
     (case v of
        JNum n \<Rightarrow> iso_of_ms n
      | JBool b \<Rightarrow> iso_of_ms (if b then 1 else 0)
      | JNull \<Rightarrow> iso_of_ms 0
      | _ \<Rightarrow> None)"

definition example_world ::
  "(db_query \<Rightarrow> row db_result) \<Rightarrow> (db_query \<Rightarrow> row list db_result) \<Rightarrow> world" where
  "example_world single rows =
     \<lparr>now_iso = ''2024-01-15T09:30:00.000Z'', date_iso = example_date_iso,
      db_single = single, db_rows = rows, tmdb = example_tmdb,
      latency = example_latency, api_key = ''k''\<rparr>"

text \<open>Databases: one that finds a given row (or none), and one whose table is empty.\<close>

definition single_of :: "row option \<Rightarrow> db_query \<Rightarrow> row db_result" where
  "single_of r q = \<lparr>db_data = r, db_err = None\<rparr>"

definition rows_of :: "row list \<Rightarrow> db_query \<Rightarrow> row list db_result" where
  "rows_of rs q = \<lparr>db_data = Some rs, db_err = None\<rparr>"

text \<open>A database whose table is named \<open>Calendar\<close>, and one that is down.\<close>

definition missing_relation :: db_error where
  "missing_relation = \<lparr>db_message = Some ''relation public.calendar does not exist''\<rparr>"

definition capitalised_single :: "row option \<Rightarrow> db_query \<Rightarrow> row db_result" where
  "capitalised_single r q =
     (if q_table q = ''Calendar'' then \<lparr>db_data = r, db_err = None\<rparr>
      else \<lparr>db_data = None, db_err = Some missing_relation\<rparr>)"

definition failing_single :: "string \<Rightarrow> db_query \<Rightarrow> row db_result" where
  "failing_single m q = \<lparr>db_data = None, db_err = Some \<lparr>db_message = Some m\<rparr>\<rparr>"

definition no_table_single :: "db_query \<Rightarrow> row db_result" where
  "no_table_single q =
     (if q_table q = ''Calendar''
        then \<lparr>db_data = None, db_err = Some \<lparr>db_message = Some ''permission denied''\<rparr>\<rparr>
      else \<lparr>db_data = None, db_err = Some missing_relation\<rparr>)"

text \<open>
  A table whose date column is typed unevenly: a row without a date, yesterday's row, a
  row dated by a timestamp within today, and a later row dated today by a string.
\<close>

definition mixed_rows :: "row list" where
  "mixed_rows =
     [[(''id'', JNum 1), (''movie_id'', JNum 8)],
      [(''id'', JNum 2), (''date'', JStr ''2024-01-14''), (''movie_id'', JNum 7)],
      [(''id'', JNum 3), (''date'', JNum 1705312800000), (''movie_id'', JNum 550)],
      [(''id'', JNum 4), (''date'', JStr ''2024-01-15T00:00:00+00:00''), (''movie_id'', JNum 551)]]"

text \<open>Today's row, as the \<open>/api\<close> server reads it and as the README describes it.\<close>

definition row_with_movie :: row where
  "row_with_movie =
     [(''id'', JNum 1), (''date'', JStr ''2024-01-15''), (''movie'', JNum 550),
      (''quote_en'', JStr ''The first rule''), (''quote_pl'', JStr ''Pierwsza zasada''),
      (''description'', JNull)]"

definition row_with_movie_id :: row where
  "row_with_movie_id = [(''id'', JNum 1), (''date'', JStr ''2024-01-15''), (''movie_id'', JNum 550)]"

definition row_without_id :: row where
  "row_without_id = [(''id'', JNum 1), (''date'', JStr ''2024-01-15'')]"

text \<open>Today's row in a table that has no display columns.\<close>

definition row_movie_only :: row where
  "row_movie_only = [(''id'', JNum 1), (''date'', JStr ''2024-01-15''), (''movie'', JNum 550)]"

text \<open>A table where a row dated by an object comes before today's row.\<close>

definition rows_with_object_date :: "row list" where
  "rows_with_object_date =
     [[(''id'', JNum 1), (''date'', JObj [(''a'', JNum 1)]), (''movie_id'', JNum 7)],
      [(''id'', JNum 2), (''date'', JStr ''2024-01-15''), (''movie_id'', JNum 550)]]"

text \<open>The same service in a world with another clock, credential and timing.\<close>

definition other_world :: world where
  "other_world =
     (example_world (single_of None) (rows_of []))
       \<lparr>now_iso := ''2030-06-01T00:00:00.000Z'', latency := (\<lambda>req. 0), api_key := ''other''\<rparr>"

section \<open>Properties of objects\<close>

lemma field_update_same: "field (AList.update k v al) k = v"
  by (simp add: field_def AList.update_conv')

lemma field_update_other: "k' \<noteq> k \<Longrightarrow> field (AList.update k v al) k' = field al k'"
  by (simp add: field_def AList.update_conv')

lemma filter_update_drop:
  "(\<And>x. \<not> P (k, x)) \<Longrightarrow> filter P (AList.update k v al) = filter P al"
  by (induction al) auto

lemma keys_update: "fst ` set (AList.update k v al) = insert k (fst ` set al)"
  by (simp add: AList.dom_update)

lemma combine_objects:
  "combine (JObj fs) (JObj gs) =
     Inr (JObj (AList.update ''crew'' (field gs ''crew'')
                 (AList.update ''cast'' (field gs ''cast'') fs)))"
  by (simp add: combine_def)

lemma cast_crew_added:
  "field (AList.update ''crew'' r (AList.update ''cast'' c fs)) ''cast'' = c
   \<and> field (AList.update ''crew'' r (AList.update ''cast'' c fs)) ''crew'' = r
   \<and> fst ` set (AList.update ''crew'' r (AList.update ''cast'' c fs))
       = fst ` set fs \<union> {''cast'', ''crew''}
   \<and> filter (\<lambda>kv. fst kv \<noteq> ''cast'' \<and> fst kv \<noteq> ''crew'')
             (AList.update ''crew'' r (AList.update ''cast'' c fs))
       = filter (\<lambda>kv. fst kv \<noteq> ''cast'' \<and> fst kv \<noteq> ''crew'') fs"
  by (simp add: field_update_same field_update_other filter_update_drop keys_update insert_commute)

section \<open>Properties of the metadata client\<close>

text \<open>
  C2. \<open>fetchMovieDetails\<close> issues the details request and the credits request for the
  identifier, whatever they answer. If one of the two fails and the other succeeds, it
  fails with the error of the one that failed; if both fail, it fails with the error of
  the one that failed first; in neither case is there a result. If both succeed, with
  objects as payloads, the result is the details object with \<open>cast\<close> and \<open>crew\<close> set to the
  fields of those names in the credits object: the other fields of the details are all
  there, unchanged and in their order, and there is no further field.
\<close>

theorem fetchMovieDetails_all_or_nothing:
  "fst (fetchMovieDetails w movieId) =
     [HttpGet (details_request w language movieId), HttpGet (credits_request w movieId)]
   \<and> (\<forall>e r. axios_get w (details_request w language movieId) = Inl e
            \<and> axios_get w (credits_request w movieId) = Inr r
          \<longrightarrow> snd (fetchMovieDetails w movieId) = Inl e)
   \<and> (\<forall>e r. axios_get w (details_request w language movieId) = Inr r
            \<and> axios_get w (credits_request w movieId) = Inl e
          \<longrightarrow> snd (fetchMovieDetails w movieId) = Inl e)
   \<and> (\<forall>e1 e2. axios_get w (details_request w language movieId) = Inl e1
            \<and> axios_get w (credits_request w movieId) = Inl e2
          \<longrightarrow> snd (fetchMovieDetails w movieId) =
                (if latency w (credits_request w movieId)
                      < latency w (details_request w language movieId)
                 then Inl e2 else Inl e1))
   \<and> (\<forall>m c fs gs. axios_get w (details_request w language movieId) = Inr m
            \<and> axios_get w (credits_request w movieId) = Inr c
            \<and> resp_data m = JObj fs \<and> resp_data c = JObj gs
          \<longrightarrow> (\<exists>out. snd (fetchMovieDetails w movieId) = Inr (JObj out)
                  \<and> field out ''cast'' = field gs ''cast''
                  \<and> field out ''crew'' = field gs ''crew''
                  \<and> fst ` set out = fst ` set fs \<union> {''cast'', ''crew''}
                  \<and> filter (\<lambda>kv. fst kv \<noteq> ''cast'' \<and> fst kv \<noteq> ''crew'') out
                      = filter (\<lambda>kv. fst kv \<noteq> ''cast'' \<and> fst kv \<noteq> ''crew'') fs))"
  using cast_crew_added
  by (simp add: fetchMovieDetails_def Let_def combine_objects)

lemma example_details_550:
  "axios_get (example_world s r) (details_request (example_world s r) language (JNum 550))
     = Inr \<lparr>resp_status = 200, resp_data = movie_550\<rparr>"
  by code_simp

lemma example_credits_550:
  "axios_get (example_world s r) (credits_request (example_world s r) (JNum 550))
     = Inr \<lparr>resp_status = 200, resp_data = credits_550\<rparr>"
  by code_simp

lemma example_details_7:
  "axios_get (example_world s r) (details_request (example_world s r) language (JNum 7))
     = Inl \<lparr>err_message = ''Request failed with status code 404'',
            err_response = Some \<lparr>resp_status = 404, resp_data = not_found_payload\<rparr>\<rparr>"
  by code_simp

lemma example_credits_7:
  "axios_get (example_world s r) (credits_request (example_world s r) (JNum 7))
     = Inl \<lparr>err_message = ''socket hang up'', err_response = None\<rparr>"
  by code_simp

theorem fetchMovieDetails_all_or_nothing_witness:
  "(\<exists>out. snd (fetchMovieDetails (example_world (single_of None) (rows_of [])) (JNum 550))
            = Inr (JObj out)
         \<and> field out ''cast'' = JArr [JStr ''Edward Norton'']
         \<and> field out ''crew'' = JArr [JStr ''David Fincher'']
         \<and> fst ` set out = {''id'', ''title'', ''cast'', ''crew''}
         \<and> filter (\<lambda>kv. fst kv \<noteq> ''cast'' \<and> fst kv \<noteq> ''crew'') out
             = [(''id'', JNum 550), (''title'', JStr ''Fight Club'')])
   \<and> snd (fetchMovieDetails (example_world (single_of None) (rows_of [])) (JNum 7))
       = Inl \<lparr>err_message = ''socket hang up'', err_response = None\<rparr>"
proof -
  let ?w = "example_world (single_of None) (rows_of [])"
  have lat: "latency ?w (credits_request ?w (JNum 7))
               < latency ?w (details_request ?w language (JNum 7))"
    by code_simp
  have ok: "\<exists>out. snd (fetchMovieDetails ?w (JNum 550)) = Inr (JObj out)
         \<and> field out ''cast'' = JArr [JStr ''Edward Norton'']
         \<and> field out ''crew'' = JArr [JStr ''David Fincher'']
         \<and> fst ` set out = {''id'', ''title'', ''cast'', ''crew''}
         \<and> filter (\<lambda>kv. fst kv \<noteq> ''cast'' \<and> fst kv \<noteq> ''crew'') out
             = [(''id'', JNum 550), (''title'', JStr ''Fight Club'')]"
    using fetchMovieDetails_all_or_nothing [of ?w "JNum 550"]
    by (simp add: example_details_550 example_credits_550 movie_550_def credits_550_def
          field_def insert_commute)
  have bad: "snd (fetchMovieDetails ?w (JNum 7))
       = Inl \<lparr>err_message = ''socket hang up'', err_response = None\<rparr>"
    using fetchMovieDetails_all_or_nothing [of ?w "JNum 7"] lat
    by (simp add: example_details_7 example_credits_7)
  from ok bad show ?thesis by blast
qed

section \<open>Properties of the search handler\<close>

text \<open>
  C4. \<open>GET /api/search\<close> with the query parameter absent or empty answers 400 and makes
  no request. With any other query it makes exactly one request, to the search endpoint
  and carrying the query; when the service answers that request with a 2xx status and an
  object, the handler answers 200 with the query as it came in and the service's
  \<open>results\<close>, \<open>total_results\<close>, \<open>page\<close> and \<open>total_pages\<close> as they are.
\<close>

theorem api_search_validates_and_passes_through:
  "api_search w JUndefined =
     ([], \<lparr>status = 400,
           body = JObj [(''error'', JStr ''Query parameter is required''),
                        (''example'', JStr ''/search?query=batman'')]\<rparr>)
   \<and> api_search w (JStr []) =
     ([], \<lparr>status = 400,
           body = JObj [(''error'', JStr ''Query parameter is required''),
                        (''example'', JStr ''/search?query=batman'')]\<rparr>)
   \<and> (truthy query \<longrightarrow>
        fst (api_search w query) =
          [HttpGet \<lparr>req_url = TMDB_BASE_URL @ ''/search/movie'',
                    req_params = [(''api_key'', JStr (api_key w)), (''query'', query),
                                  (''language'', JStr language)]\<rparr>])
   \<and> (\<forall>r fs. truthy query
          \<and> tmdb w (search_request w query) = Answer r
          \<and> 200 \<le> resp_status r \<and> resp_status r < 300 \<and> resp_data r = JObj fs
        \<longrightarrow> snd (api_search w query) =
              \<lparr>status = 200,
               body = JObj [(''query'', query), (''results'', field fs ''results''),
                            (''total_results'', field fs ''total_results''),
                            (''page'', field fs ''page''),
                            (''total_pages'', field fs ''total_pages'')]\<rparr>)"
  by (simp add: api_search_def Let_def search_request_def axios_get_def search_body_def)

theorem api_search_validates_and_passes_through_witness:
  "api_search (example_world (single_of None) (rows_of [])) (JStr ''fight'') =
     ([HttpGet \<lparr>req_url = ''https://api.themoviedb.org/3/search/movie'',
                req_params = [(''api_key'', JStr ''k''), (''query'', JStr ''fight''),
                              (''language'', JStr ''pl-PL'')]\<rparr>],
      \<lparr>status = 200,
       body = JObj [(''query'', JStr ''fight''), (''results'', JArr [movie_550]),
                    (''total_results'', JNum 1), (''page'', JNum 1),
                    (''total_pages'', JNum 1)]\<rparr>)"
proof -
  let ?w = "example_world (single_of None) (rows_of [])"
  have t: "truthy (JStr ''fight'')" by simp
  have a: "tmdb ?w (search_request ?w (JStr ''fight''))
             = Answer \<lparr>resp_status = 200, resp_data = search_page\<rparr>"
    by code_simp
  have k: "api_key ?w = ''k''" by (simp add: example_world_def)
  show ?thesis
    using api_search_validates_and_passes_through [of ?w "JStr ''fight''"] t a k
    by (simp add: search_page_def field_def TMDB_BASE_URL_def language_def prod_eq_iff)
qed

section \<open>Properties of the movie handler\<close>

lemma fetch_trace:
  "fst (fetchMovieDetails w movieId) =
     [HttpGet (details_request w language movieId), HttpGet (credits_request w movieId)]"
  by (simp add: fetchMovieDetails_def Let_def)

lemma api_movie_unfold:
  "movieId \<noteq> [] \<Longrightarrow>
   api_movie w movieId =
     (fst (fetchMovieDetails w (JStr movieId)),
      case snd (fetchMovieDetails w (JStr movieId)) of
        Inr movieDetails \<Rightarrow> \<lparr>status = 200, body = JObj [(''movie'', movieDetails)]\<rparr>
      | Inl e \<Rightarrow> catch_reply ''Failed to fetch movie from TheMovieDB'' e)"
  by (simp add: api_movie_def split: prod.splits sum.splits)


lemma catch_reply_error:
  "field_of_error = opt_prop (body (catch_reply what e)) ''error'' \<Longrightarrow>
   field_of_error = (case err_response e of Some r \<Rightarrow> JStr what
                                         | None \<Rightarrow> JStr ''Internal server error'')"
  by (simp add: catch_reply_def opt_prop_def field_def split: option.splits)

lemma axios_get_answer:
  "tmdb w req = Answer r \<Longrightarrow>
   axios_get w req =
     (if 200 \<le> resp_status r \<and> resp_status r < 300 then Inr r
      else Inl \<lparr>err_message = ''Request failed with status code '' @ string_of_int (resp_status r),
                err_response = Some r\<rparr>)"
  by (simp add: axios_get_def)

lemma fetch_result:
  "snd (fetchMovieDetails w movieId) =
     (case axios_get w (details_request w language movieId) of
        Inr movieResponse \<Rightarrow>
          (case axios_get w (credits_request w movieId) of
             Inr creditsResponse \<Rightarrow> combine (resp_data movieResponse) (resp_data creditsResponse)
           | Inl e2 \<Rightarrow> Inl e2)
      | Inl e1 \<Rightarrow>
          (case axios_get w (credits_request w movieId) of
             Inr creditsResponse \<Rightarrow> Inl e1
           | Inl e2 \<Rightarrow>
               if latency w (credits_request w movieId) < latency w (details_request w language movieId)
               then Inl e2 else Inl e1))"
  by (simp add: fetchMovieDetails_def Let_def)



text \<open>
  C8. Two runs of \<open>GET /api/movie/:movie_id\<close> for the same identifier, in worlds where
  the service gives the same answer to the details request and the same answer to the
  credits request, send the same \<open>movie\<close> payload, whatever else differs between the
  worlds (the clock, the database, the credential, the time each request takes). When
  the two requests also settle in the same order, the whole responses are equal.
\<close>

theorem api_movie_deterministic:
  assumes "tmdb w1 (details_request w1 language (JStr movieId))
             = tmdb w2 (details_request w2 language (JStr movieId))"
    and "tmdb w1 (credits_request w1 (JStr movieId))
             = tmdb w2 (credits_request w2 (JStr movieId))"
  shows "opt_prop (body (snd (api_movie w1 movieId))) ''movie''
           = opt_prop (body (snd (api_movie w2 movieId))) ''movie''
         \<and> ((latency w1 (credits_request w1 (JStr movieId))
                 < latency w1 (details_request w1 language (JStr movieId)))
              = (latency w2 (credits_request w2 (JStr movieId))
                 < latency w2 (details_request w2 language (JStr movieId)))
            \<longrightarrow> snd (api_movie w1 movieId) = snd (api_movie w2 movieId))"
proof (cases "movieId = []")
  case True
  then show ?thesis by (simp add: api_movie_def)
next
  case False
  have d: "axios_get w1 (details_request w1 language (JStr movieId))
             = axios_get w2 (details_request w2 language (JStr movieId))"
    using assms(1) by (simp add: axios_get_def)
  have c: "axios_get w1 (credits_request w1 (JStr movieId))
             = axios_get w2 (credits_request w2 (JStr movieId))"
    using assms(2) by (simp add: axios_get_def)
  have movie_of_catch: "\<And>e. opt_prop (body (catch_reply ''Failed to fetch movie from TheMovieDB'' e)) ''movie''
           = JUndefined"
    by (simp add: catch_reply_def opt_prop_def field_def split: option.splits)
  show ?thesis
    using False
    by (simp add: api_movie_unfold fetch_result d c movie_of_catch split: sum.splits)
qed

theorem api_movie_deterministic_witness:
  "opt_prop (body (snd (api_movie (example_world (single_of None) (rows_of [])) ''550''))) ''movie''
     = opt_prop (body (snd (api_movie other_world ''550''))) ''movie''
   \<and> opt_prop (body (snd (api_movie other_world ''550''))) ''movie''
     = JObj [(''id'', JNum 550), (''title'', JStr ''Fight Club''),
             (''cast'', JArr [JStr ''Edward Norton'']),
             (''crew'', JArr [JStr ''David Fincher''])]"
proof -
  let ?w = "example_world (single_of None) (rows_of [])"
  have d: "tmdb ?w (details_request ?w language (JStr ''550''))
             = tmdb other_world (details_request other_world language (JStr ''550''))"
    by code_simp
  have c: "tmdb ?w (credits_request ?w (JStr ''550''))
             = tmdb other_world (credits_request other_world (JStr ''550''))"
    by code_simp
  have v: "opt_prop (body (snd (api_movie other_world ''550''))) ''movie''
     = JObj [(''id'', JNum 550), (''title'', JStr ''Fight Club''),
             (''cast'', JArr [JStr ''Edward Norton'']),
             (''crew'', JArr [JStr ''David Fincher''])]"
    by code_simp
  show ?thesis
    using api_movie_deterministic [OF d c] v by simp
qed

text \<open>
  C10. \<open>GET /api/movie/:movie_id\<close> does not look at what the path parameter is made of:
  every non-empty parameter, digits or not, is put as it is into the URL of the details
  request and of the credits request, and both requests are made. The answer
  \<open>Movie ID is required\<close> with status 400 is sent for the empty parameter and for no other.
\<close>

theorem api_movie_forwards_any_id:
  "api_movie w [] =
     ([], \<lparr>status = 400,
           body = JObj [(''error'', JStr ''Movie ID is required''),
                        (''example'', JStr ''/movie/550'')]\<rparr>)
   \<and> (movieId \<noteq> [] \<longrightarrow>
        fst (api_movie w movieId) =
          [HttpGet \<lparr>req_url = TMDB_BASE_URL @ ''/movie/'' @ movieId,
                    req_params = [(''api_key'', JStr (api_key w)), (''language'', JStr language)]\<rparr>,
           HttpGet \<lparr>req_url = TMDB_BASE_URL @ ''/movie/'' @ movieId @ ''/credits'',
                    req_params = [(''api_key'', JStr (api_key w)), (''language'', JStr language)]\<rparr>])
   \<and> (opt_prop (body (snd (api_movie w movieId))) ''error'' = JStr ''Movie ID is required''
        \<longrightarrow> movieId = [])"
proof -
  have z: "api_movie w [] =
     ([], \<lparr>status = 400,
           body = JObj [(''error'', JStr ''Movie ID is required''),
                        (''example'', JStr ''/movie/550'')]\<rparr>)"
    by (simp add: api_movie_def)
  have a: "movieId \<noteq> [] \<longrightarrow>
        fst (api_movie w movieId) =
          [HttpGet \<lparr>req_url = TMDB_BASE_URL @ ''/movie/'' @ movieId,
                    req_params = [(''api_key'', JStr (api_key w)), (''language'', JStr language)]\<rparr>,
           HttpGet \<lparr>req_url = TMDB_BASE_URL @ ''/movie/'' @ movieId @ ''/credits'',
                    req_params = [(''api_key'', JStr (api_key w)), (''language'', JStr language)]\<rparr>]"
    by (simp add: api_movie_unfold fetch_trace details_request_def credits_request_def)
  have b: "opt_prop (body (snd (api_movie w movieId))) ''error'' = JStr ''Movie ID is required''
        \<longrightarrow> movieId = []"
  proof (cases "movieId = []")
    case True
    then show ?thesis by simp
  next
    case False
    then show ?thesis
      by (cases "snd (fetchMovieDetails w (JStr movieId))")
         (auto simp add: api_movie_unfold catch_reply_def opt_prop_def field_def split: option.splits)
  qed
  show ?thesis by (rule conjI [OF z conjI [OF a b]])
qed

theorem api_movie_forwards_any_id_witness:
  "fst (api_movie (example_world (single_of None) (rows_of [])) ''abc'') =
     [HttpGet \<lparr>req_url = TMDB_BASE_URL @ ''/movie/abc'',
               req_params = [(''api_key'', JStr ''k''), (''language'', JStr ''pl-PL'')]\<rparr>,
      HttpGet \<lparr>req_url = TMDB_BASE_URL @ ''/movie/abc/credits'',
               req_params = [(''api_key'', JStr ''k''), (''language'', JStr ''pl-PL'')]\<rparr>]
   \<and> status (snd (api_movie (example_world (single_of None) (rows_of [])) ''abc'')) = 404"
proof -
  let ?w = "example_world (single_of None) (rows_of [])"
  have n: "''abc'' \<noteq> []" by simp
  have k: "api_key ?w = ''k''" by (simp add: example_world_def)
  have s: "status (snd (api_movie ?w ''abc'')) = 404" by code_simp
  have t: "fst (api_movie ?w ''abc'') =
     [HttpGet \<lparr>req_url = TMDB_BASE_URL @ ''/movie/'' @ ''abc'',
               req_params = [(''api_key'', JStr (api_key ?w)), (''language'', JStr language)]\<rparr>,
      HttpGet \<lparr>req_url = TMDB_BASE_URL @ ''/movie/'' @ ''abc'' @ ''/credits'',
               req_params = [(''api_key'', JStr (api_key ?w)), (''language'', JStr language)]\<rparr>]"
    using api_movie_forwards_any_id [of ?w "''abc''"] n by blast
  show ?thesis
    using t s by (simp add: k language_def)
qed

section \<open>Properties of the calendar lookup\<close>

lemma starts_with_iff: "starts_with s p \<longleftrightarrow> (\<exists>q. s = p @ q)"
proof (induction p arbitrary: s)
  case Nil
  then show ?case by simp
next
  case (Cons c p)
  then show ?case by (cases s) auto
qed

lemma str_includes_iff: "str_includes s sub \<longleftrightarrow> (\<exists>p q. s = p @ sub @ q)"
proof (induction s)
  case Nil
  then show ?case by simp
next
  case (Cons c cs)
  show ?case
  proof
    assume "str_includes (c # cs) sub"
    then consider "starts_with (c # cs) sub" | "str_includes cs sub" by auto
    then show "\<exists>p q. c # cs = p @ sub @ q"
    proof cases
      case 1
      then obtain q where "c # cs = sub @ q" by (auto simp add: starts_with_iff)
      then have "c # cs = [] @ sub @ q" by simp
      then show ?thesis by blast
    next
      case 2
      then obtain p q where "cs = p @ sub @ q" using Cons.IH by blast
      then have "c # cs = (c # p) @ sub @ q" by simp
      then show ?thesis by blast
    qed
  next
    assume "\<exists>p q. c # cs = p @ sub @ q"
    then obtain p q where pq: "c # cs = p @ sub @ q" by blast
    show "str_includes (c # cs) sub"
    proof (cases p)
      case Nil
      with pq have "starts_with (c # cs) sub" by (auto simp add: starts_with_iff)
      then show ?thesis by simp
    next
      case (Cons a p')
      with pq have "cs = p' @ sub @ q" by simp
      then have "str_includes cs sub" using Cons.IH by blast
      then show ?thesis by simp
    qed
  qed
qed

lemma relation_missing_iff:
  "relation_missing e \<longleftrightarrow>
     (\<exists>m p q. db_message e = Some m \<and> (m = p @ ''relation'' @ q \<or> m = p @ ''does not exist'' @ q))"
  unfolding relation_missing_def str_includes_iff
  by (cases "db_message e") auto

text \<open>What the handler has asked the database and the service by the end.\<close>

lemma scan_all_trace:
  "fst (scan_all w today data error) =
     (if data = None \<and> error = None then [DbQuery all_rows_query] else [])"
  by (simp add: scan_all_def Let_def)

lemma respond_today_trace:
  "\<forall>ev \<in> set (fst (respond_today w today data error)).
      ev = DbQuery debug_query \<or> (\<exists>r. ev = HttpGet r)"
  by (simp add: respond_today_def Let_def split: option.splits)

lemma mystery_movie_trace:
  "\<exists>rest. fst (mystery_movie w) =
             fst (lookup_today w (split_T_0 (now_iso w)))
             @ fst (scan_all w (split_T_0 (now_iso w))
                      (fst (snd (lookup_today w (split_T_0 (now_iso w)))))
                      (snd (snd (lookup_today w (split_T_0 (now_iso w))))))
             @ rest
         \<and> (\<forall>ev \<in> set rest. ev = DbQuery debug_query \<or> (\<exists>r. ev = HttpGet r))"
proof -
  let ?today = "split_T_0 (now_iso w)"
  obtain t1 data1 error where l: "lookup_today w ?today = (t1, data1, error)"
    by (cases "lookup_today w ?today") auto
  obtain t2 f where s: "scan_all w ?today data1 error = (t2, f)"
    by (cases "scan_all w ?today data1 error") auto
  show ?thesis
  proof (cases f)
    case (Continue data)
    obtain t3 r where r: "respond_today w ?today data error = (t3, r)"
      by (cases "respond_today w ?today data error") auto
    have "\<forall>ev \<in> set t3. ev = DbQuery debug_query \<or> (\<exists>r. ev = HttpGet r)"
      using respond_today_trace [of w ?today data error] r by simp
    moreover have "fst (mystery_movie w) = t1 @ t2 @ t3"
      using l s r Continue by (cases r) (simp_all add: mystery_movie_def)
    ultimately show ?thesis using l s by simp
  next
    case (Return rep)
    then have "fst (mystery_movie w) = t1 @ t2 @ []"
      using l s by (simp add: mystery_movie_def)
    then show ?thesis using l s by simp
  next
    case (Throw e)
    then have "fst (mystery_movie w) = t1 @ t2 @ []"
      using l s by (simp add: mystery_movie_def)
    then show ?thesis using l s by simp
  qed
qed

lemma lookup_today_trace:
  "fst (lookup_today w today) =
     (case db_err (db_single w (calendar_query ''calendar'' ''*'' today)) of
        None \<Rightarrow> [DbQuery (calendar_query ''calendar'' ''*'' today)]
      | Some e \<Rightarrow>
          if relation_missing e
          then [DbQuery (calendar_query ''calendar'' ''*'' today),
                DbQuery (calendar_query ''Calendar'' ''*'' today)]
          else [DbQuery (calendar_query ''calendar'' ''*'' today)])"
  by (simp add: lookup_today_def Let_def split: option.splits)

lemma retry_is_no_other_query:
  "DbQuery (calendar_query ''Calendar'' ''*'' today) \<noteq> DbQuery (calendar_query ''calendar'' ''*'' today)
   \<and> DbQuery (calendar_query ''Calendar'' ''*'' today) \<noteq> DbQuery all_rows_query
   \<and> DbQuery (calendar_query ''Calendar'' ''*'' today) \<noteq> DbQuery debug_query
   \<and> DbQuery (calendar_query ''Calendar'' ''*'' today) \<noteq> HttpGet r"
  by (simp add: calendar_query_def all_rows_query_def debug_query_def)

lemma mystery_movie_other_error:
  "db_err (db_single w (calendar_query ''calendar'' ''*'' (split_T_0 (now_iso w)))) = Some e \<Longrightarrow>
   \<not> relation_missing e \<Longrightarrow>
   mystery_movie w =
     ([DbQuery (calendar_query ''calendar'' ''*'' (split_T_0 (now_iso w)))],
      database_error (unknown_or (message_value e)))"
  by (simp add: mystery_movie_def lookup_today_def scan_all_def respond_today_def Let_def)

text \<open>
  C6. The handler of server.js queries \<open>Calendar\<close> exactly when the primary query
  returns an error whose message contains \<open>relation\<close> or \<open>does not exist\<close>. That query is
  the primary query with the table name replaced and nothing else changed; it is made
  at most once, and the handler queries no table but \<open>calendar\<close> and \<open>Calendar\<close>. After
  any other error of the primary query the handler makes no further query or request.
\<close>

theorem retry_only_when_relation_missing:
  "(DbQuery (calendar_query ''Calendar'' ''*'' (split_T_0 (now_iso w))) \<in> set (fst (mystery_movie w)))
     = (\<exists>e m p q.
          db_err (db_single w (calendar_query ''calendar'' ''*'' (split_T_0 (now_iso w)))) = Some e
          \<and> db_message e = Some m
          \<and> (m = p @ ''relation'' @ q \<or> m = p @ ''does not exist'' @ q))
   \<and> calendar_query ''Calendar'' ''*'' (split_T_0 (now_iso w))
       = (calendar_query ''calendar'' ''*'' (split_T_0 (now_iso w)))\<lparr>q_table := ''Calendar''\<rparr>
   \<and> length (filter (\<lambda>ev. ev = DbQuery (calendar_query ''Calendar'' ''*'' (split_T_0 (now_iso w))))
               (fst (mystery_movie w))) \<le> 1
   \<and> (\<forall>q. DbQuery q \<in> set (fst (mystery_movie w)) \<and> q_table q \<noteq> ''calendar''
          \<longrightarrow> q = calendar_query ''Calendar'' ''*'' (split_T_0 (now_iso w)))
   \<and> (\<forall>e. db_err (db_single w (calendar_query ''calendar'' ''*'' (split_T_0 (now_iso w)))) = Some e
          \<and> \<not> (\<exists>m p q. db_message e = Some m
                   \<and> (m = p @ ''relation'' @ q \<or> m = p @ ''does not exist'' @ q))
          \<longrightarrow> fst (mystery_movie w)
                = [DbQuery (calendar_query ''calendar'' ''*'' (split_T_0 (now_iso w)))])"
proof -
  let ?today = "split_T_0 (now_iso w)"
  let ?primary = "calendar_query ''calendar'' ''*'' ?today"
  let ?retry = "calendar_query ''Calendar'' ''*'' ?today"
  obtain rest where
    tr: "fst (mystery_movie w) =
           fst (lookup_today w ?today)
           @ fst (scan_all w ?today (fst (snd (lookup_today w ?today)))
                    (snd (snd (lookup_today w ?today))))
           @ rest"
    and rest: "\<forall>ev \<in> set rest. ev = DbQuery debug_query \<or> (\<exists>r. ev = HttpGet r)"
    using mystery_movie_trace [of w] by blast
  have not_in_rest: "DbQuery ?retry \<notin> set rest"
    using rest retry_is_no_other_query [of ?today] by blast
  have filter_rest: "filter (\<lambda>ev. ev = DbQuery ?retry) rest = []"
    using not_in_rest by (auto simp add: filter_empty_conv)
  have a: "(DbQuery ?retry \<in> set (fst (mystery_movie w)))
     = (\<exists>e m p q. db_err (db_single w ?primary) = Some e \<and> db_message e = Some m
          \<and> (m = p @ ''relation'' @ q \<or> m = p @ ''does not exist'' @ q))"
  proof (cases "db_err (db_single w ?primary)")
    case None
    then show ?thesis
      using not_in_rest retry_is_no_other_query [of ?today]
      by (simp add: tr lookup_today_trace scan_all_trace)
  next
    case (Some e)
    have "(DbQuery ?retry \<in> set (fst (mystery_movie w))) = relation_missing e"
      using Some not_in_rest retry_is_no_other_query [of ?today]
      by (simp add: tr lookup_today_trace scan_all_trace)
    then show ?thesis using Some by (simp add: relation_missing_iff)
  qed
  have b: "?retry = ?primary\<lparr>q_table := ''Calendar''\<rparr>"
    by (simp add: calendar_query_def)
  have c: "length (filter (\<lambda>ev. ev = DbQuery ?retry) (fst (mystery_movie w))) \<le> 1"
    using filter_rest
    by (simp add: tr lookup_today_trace scan_all_trace calendar_query_def all_rows_query_def
          split: option.splits)
  have d: "\<forall>q. DbQuery q \<in> set (fst (mystery_movie w)) \<and> q_table q \<noteq> ''calendar''
          \<longrightarrow> q = ?retry"
  proof (intro allI impI)
    fix q
    assume q: "DbQuery q \<in> set (fst (mystery_movie w)) \<and> q_table q \<noteq> ''calendar''"
    have "DbQuery q \<in> set rest \<longrightarrow> q = debug_query" using rest by auto
    moreover have "q_table debug_query = ''calendar''" "q_table all_rows_query = ''calendar''"
      "q_table ?primary = ''calendar''"
      by (simp_all add: debug_query_def all_rows_query_def calendar_query_def)
    ultimately show "q = ?retry"
      using q
      by (auto simp add: tr lookup_today_trace scan_all_trace split: option.splits if_splits)
  qed
  have e: "\<forall>e. db_err (db_single w ?primary) = Some e
          \<and> \<not> (\<exists>m p q. db_message e = Some m
                   \<and> (m = p @ ''relation'' @ q \<or> m = p @ ''does not exist'' @ q))
          \<longrightarrow> fst (mystery_movie w) = [DbQuery ?primary]"
    using mystery_movie_other_error [of w] by (simp add: relation_missing_iff)
  show ?thesis by (rule conjI [OF a conjI [OF b conjI [OF c conjI [OF d e]]]])
qed

lemma missing_relation_message:
  "missing_relation = \<lparr>db_message = Some ([] @ ''relation'' @ '' public.calendar does not exist'')\<rparr>"
  by (simp add: missing_relation_def)

theorem retry_only_when_relation_missing_witness:
  "DbQuery (calendar_query ''Calendar'' ''*'' ''2024-01-15'')
     \<in> set (fst (mystery_movie (example_world no_table_single (rows_of []))))
   \<and> fst (mystery_movie (example_world (failing_single ''permission denied'') (rows_of [])))
       = [DbQuery (calendar_query ''calendar'' ''*'' ''2024-01-15'')]"
proof -
  let ?w = "example_world no_table_single (rows_of [])"
  let ?v = "example_world (failing_single ''permission denied'') (rows_of [])"
  have today: "split_T_0 (now_iso ?w) = ''2024-01-15''" "split_T_0 (now_iso ?v) = ''2024-01-15''"
    by (simp_all add: example_world_def split_T_0_def)
  have p: "db_err (db_single ?w (calendar_query ''calendar'' ''*'' ''2024-01-15''))
             = Some missing_relation"
    by (simp add: example_world_def no_table_single_def calendar_query_def)
  have r: "\<exists>e m p q.
          db_err (db_single ?w (calendar_query ''calendar'' ''*'' ''2024-01-15'')) = Some e
          \<and> db_message e = Some m
          \<and> (m = p @ ''relation'' @ q \<or> m = p @ ''does not exist'' @ q)"
    unfolding p missing_relation_message by (simp del: append.simps) blast
  have o: "db_err (db_single ?v (calendar_query ''calendar'' ''*'' ''2024-01-15''))
             = Some \<lparr>db_message = Some ''permission denied''\<rparr>"
    by (simp add: example_world_def failing_single_def)
  have nr: "\<not> relation_missing \<lparr>db_message = Some ''permission denied''\<rparr>"
    by code_simp
  have n: "\<not> (\<exists>m p q. db_message \<lparr>db_message = Some ''permission denied''\<rparr> = Some m
                   \<and> (m = p @ ''relation'' @ q \<or> m = p @ ''does not exist'' @ q))"
    using nr unfolding relation_missing_iff by blast
  have one: "DbQuery (calendar_query ''Calendar'' ''*'' ''2024-01-15'') \<in> set (fst (mystery_movie ?w))"
    using retry_only_when_relation_missing [of ?w, unfolded today] r by blast
  have two: "fst (mystery_movie ?v) = [DbQuery (calendar_query ''calendar'' ''*'' ''2024-01-15'')]"
    using retry_only_when_relation_missing [of ?v, unfolded today] o n by blast
  from one two show ?thesis by simp
qed

lemma relation_missing_message:
  "relation_missing e \<Longrightarrow> \<exists>m. db_message e = Some m \<and> m \<noteq> []"
  by (auto simp add: relation_missing_iff)

text \<open>
  C9. In server.js, when the primary query fails because the table is missing and the
  query on \<open>Calendar\<close> fails too, \<open>data\<close> and \<open>error\<close> stay those of the primary query: the
  handler makes no further query and answers 500 with the message of the primary
  error as \<open>details\<close>, whatever the error of the retry says. The result of the retry
  replaces them only when the retry returns no error.
\<close>

theorem failed_retry_keeps_primary_error:
  assumes "db_err (db_single w (calendar_query ''calendar'' ''*'' (split_T_0 (now_iso w)))) = Some e"
    and "relation_missing e"
  shows
  "(\<forall>e2. db_err (db_single w (calendar_query ''Calendar'' ''*'' (split_T_0 (now_iso w)))) = Some e2
      \<longrightarrow> snd (lookup_today w (split_T_0 (now_iso w)))
            = (db_data (db_single w (calendar_query ''calendar'' ''*'' (split_T_0 (now_iso w)))), Some e)
        \<and> (\<exists>m. db_message e = Some m
              \<and> mystery_movie w =
                  ([DbQuery (calendar_query ''calendar'' ''*'' (split_T_0 (now_iso w))),
                    DbQuery (calendar_query ''Calendar'' ''*'' (split_T_0 (now_iso w)))],
                   \<lparr>status = 500,
                    body = JObj [(''error'', JStr ''Database error''), (''details'', JStr m)]\<rparr>)))
   \<and> (db_err (db_single w (calendar_query ''Calendar'' ''*'' (split_T_0 (now_iso w)))) = None
      \<longrightarrow> snd (lookup_today w (split_T_0 (now_iso w)))
            = (db_data (db_single w (calendar_query ''Calendar'' ''*'' (split_T_0 (now_iso w)))), None))"
proof -
  obtain m where m: "db_message e = Some m" "m \<noteq> []"
    using relation_missing_message [OF assms(2)] by blast
  have details: "unknown_or (message_value e) = JStr m"
    using m by (simp add: unknown_or_def message_value_def js_or_def)
  show ?thesis
    using assms m
    by (simp add: lookup_today_def mystery_movie_def scan_all_def respond_today_def Let_def
          details database_error_def)
qed

theorem failed_retry_keeps_primary_error_witness:
  "mystery_movie (example_world no_table_single (rows_of [])) =
     ([DbQuery (calendar_query ''calendar'' ''*'' ''2024-01-15''),
       DbQuery (calendar_query ''Calendar'' ''*'' ''2024-01-15'')],
      \<lparr>status = 500,
       body = JObj [(''error'', JStr ''Database error''),
                    (''details'', JStr ''relation public.calendar does not exist'')]\<rparr>)"
proof -
  let ?w = "example_world no_table_single (rows_of [])"
  have today: "split_T_0 (now_iso ?w) = ''2024-01-15''"
    by (simp add: example_world_def split_T_0_def)
  have p: "db_err (db_single ?w (calendar_query ''calendar'' ''*'' (split_T_0 (now_iso ?w))))
             = Some missing_relation"
    by (simp add: example_world_def no_table_single_def calendar_query_def)
  have r: "relation_missing missing_relation"
    by code_simp
  have q: "db_err (db_single ?w (calendar_query ''Calendar'' ''*'' ''2024-01-15''))
             = Some \<lparr>db_message = Some ''permission denied''\<rparr>"
    by (simp add: example_world_def no_table_single_def calendar_query_def)
  have m: "db_message missing_relation = Some ''relation public.calendar does not exist''"
    by (simp add: missing_relation_def)
  show ?thesis
    using failed_retry_keeps_primary_error [OF p r, unfolded today] q m by auto
qed

lemma find_js_Some_iff:
  "find_js p xs = Inr (Some x) \<longleftrightarrow>
     (\<exists>pre post. xs = pre @ x # post \<and> p x = Inr True \<and> (\<forall>y \<in> set pre. p y = Inr False))"
proof (induction xs)
  case Nil
  then show ?case by simp
next
  case (Cons a xs)
  show ?case
  proof (cases "p a")
    case (Inl e)
    have "\<not> (\<exists>pre post. a # xs = pre @ x # post \<and> p x = Inr True
               \<and> (\<forall>y \<in> set pre. p y = Inr False))"
    proof
      assume "\<exists>pre post. a # xs = pre @ x # post \<and> p x = Inr True
               \<and> (\<forall>y \<in> set pre. p y = Inr False)"
      then obtain pre post where h: "a # xs = pre @ x # post" "p x = Inr True"
        "\<forall>y \<in> set pre. p y = Inr False" by blast
      then show False using Inl by (cases pre) auto
    qed
    then show ?thesis using Inl by simp
  next
    case (Inr b)
    show ?thesis
    proof (cases b)
      case True
      have "(\<exists>pre post. a # xs = pre @ x # post \<and> p x = Inr True
               \<and> (\<forall>y \<in> set pre. p y = Inr False)) \<longleftrightarrow> a = x"
      proof
        assume "\<exists>pre post. a # xs = pre @ x # post \<and> p x = Inr True
               \<and> (\<forall>y \<in> set pre. p y = Inr False)"
        then obtain pre post where h: "a # xs = pre @ x # post" "p x = Inr True"
          "\<forall>y \<in> set pre. p y = Inr False" by blast
        then show "a = x" using Inr True by (cases pre) auto
      next
        assume "a = x"
        then have "a # xs = [] @ x # xs \<and> p x = Inr True \<and> (\<forall>y \<in> set []. p y = Inr False)"
          using Inr True by simp
        then show "\<exists>pre post. a # xs = pre @ x # post \<and> p x = Inr True
               \<and> (\<forall>y \<in> set pre. p y = Inr False)" by blast
      qed
      then show ?thesis using Inr True by auto
    next
      case False
      have "(\<exists>pre post. a # xs = pre @ x # post \<and> p x = Inr True
               \<and> (\<forall>y \<in> set pre. p y = Inr False))
            \<longleftrightarrow> (\<exists>pre post. xs = pre @ x # post \<and> p x = Inr True
               \<and> (\<forall>y \<in> set pre. p y = Inr False))"
      proof
        assume "\<exists>pre post. a # xs = pre @ x # post \<and> p x = Inr True
               \<and> (\<forall>y \<in> set pre. p y = Inr False)"
        then obtain pre post where h: "a # xs = pre @ x # post" "p x = Inr True"
          "\<forall>y \<in> set pre. p y = Inr False" by blast
        show "\<exists>pre post. xs = pre @ x # post \<and> p x = Inr True
               \<and> (\<forall>y \<in> set pre. p y = Inr False)"
        proof (cases pre)
          case Nil
          then show ?thesis using h Inr False by auto
        next
          case (Cons c pre')
          then have "xs = pre' @ x # post \<and> p x = Inr True \<and> (\<forall>y \<in> set pre'. p y = Inr False)"
            using h by auto
          then show ?thesis by blast
        qed
      next
        assume "\<exists>pre post. xs = pre @ x # post \<and> p x = Inr True
               \<and> (\<forall>y \<in> set pre. p y = Inr False)"
        then obtain pre post where h: "xs = pre @ x # post" "p x = Inr True"
          "\<forall>y \<in> set pre. p y = Inr False" by blast
        then have "a # xs = (a # pre) @ x # post \<and> p x = Inr True
               \<and> (\<forall>y \<in> set (a # pre). p y = Inr False)"
          using Inr False by simp
        then show "\<exists>pre post. a # xs = pre @ x # post \<and> p x = Inr True
               \<and> (\<forall>y \<in> set pre. p y = Inr False)" by blast
      qed
      then show ?thesis using Inr False Cons.IH by simp
    qed
  qed
qed

lemma find_js_None_iff:
  "find_js p xs = Inr None \<longleftrightarrow> (\<forall>y \<in> set xs. p y = Inr False)"
  by (induction xs) (auto split: sum.splits)

lemma entry_matches_True_iff:
  "entry_matches w today r = Inr True \<longleftrightarrow>
     truthy (field r ''date'')
     \<and> (case field r ''date'' of
          JStr s \<Rightarrow> split_T_0 s = today
        | d \<Rightarrow> (\<exists>isoString. date_iso w d = Some isoString \<and> split_T_0 isoString = today))"
  by (cases "field r ''date''")
     (auto simp add: entry_matches_def Let_def split: option.splits)

lemma entry_matches_absent:
  "map_of r ''date'' = None \<Longrightarrow> entry_matches w today r = Inr False"
  by (simp add: entry_matches_def field_def)

lemma scan_runs_iff:
  "(DbQuery all_rows_query \<in> set (fst (mystery_movie w)))
     = (snd (lookup_today w (split_T_0 (now_iso w))) = (None, None))"
proof -
  let ?today = "split_T_0 (now_iso w)"
  obtain rest where
    tr: "fst (mystery_movie w) =
           fst (lookup_today w ?today)
           @ fst (scan_all w ?today (fst (snd (lookup_today w ?today)))
                    (snd (snd (lookup_today w ?today))))
           @ rest"
    and rest: "\<forall>ev \<in> set rest. ev = DbQuery debug_query \<or> (\<exists>r. ev = HttpGet r)"
    using mystery_movie_trace [of w] by blast
  have "DbQuery all_rows_query \<noteq> DbQuery debug_query"
    by (simp add: all_rows_query_def debug_query_def)
  then have r: "DbQuery all_rows_query \<notin> set rest" using rest by auto
  have l: "DbQuery all_rows_query \<notin> set (fst (lookup_today w ?today))"
    by (simp add: lookup_today_trace all_rows_query_def calendar_query_def split: option.splits)
  show ?thesis
    using r l by (simp add: tr scan_all_trace prod_eq_iff)
qed

lemma lookup_today_result:
  "snd (lookup_today w today) =
     (case db_err (db_single w (calendar_query ''calendar'' ''*'' today)) of
        None \<Rightarrow> (db_data (db_single w (calendar_query ''calendar'' ''*'' today)), None)
      | Some e \<Rightarrow>
          if relation_missing e then
            (case db_err (db_single w (calendar_query ''Calendar'' ''*'' today)) of
               None \<Rightarrow> (db_data (db_single w (calendar_query ''Calendar'' ''*'' today)), None)
             | Some e2 \<Rightarrow> (db_data (db_single w (calendar_query ''calendar'' ''*'' today)), Some e))
          else (db_data (db_single w (calendar_query ''calendar'' ''*'' today)), Some e))"
  by (simp add: lookup_today_def Let_def split: option.splits)

section \<open>The shape of the answers on success\<close>

lemma axios_error_not_2xx:
  "axios_get w req = Inl e \<Longrightarrow> err_response e = Some r \<Longrightarrow>
   \<not> (200 \<le> resp_status r \<and> resp_status r < 300)"
  by (auto simp add: axios_get_def split: net_result.splits if_splits)

lemma axios_ok_answer:
  "axios_get w req = Inr r \<Longrightarrow> tmdb w req = Answer r"
  by (auto simp add: axios_get_def split: net_result.splits if_splits)

lemma combine_error: "combine a b = Inl e \<Longrightarrow> err_response e = None"
  by (cases b) (auto simp add: combine_def type_error_def split: sum.splits)

lemma combine_has_cast_crew:
  "combine a b = Inr v \<Longrightarrow> \<exists>fs. v = JObj fs \<and> ''cast'' \<in> fst ` set fs \<and> ''crew'' \<in> fst ` set fs"
  by (auto simp add: combine_def keys_update split: sum.splits)

lemma fetch_error_not_2xx:
  "snd (fetchMovieDetails w m) = Inl e \<Longrightarrow> err_response e = Some r \<Longrightarrow>
   \<not> (200 \<le> resp_status r \<and> resp_status r < 300)"
  by (auto simp add: fetch_result split: sum.splits if_splits
        dest: axios_error_not_2xx combine_error)

lemma catch_reply_200:
  "status (catch_reply what e) = 200 \<Longrightarrow> \<exists>r. err_response e = Some r \<and> resp_status r = 200"
  by (auto simp add: catch_reply_def split: option.splits)

lemma catch_reply_fallback_200:
  "status (catch_reply_fallback e) = 200 \<Longrightarrow> \<exists>r. err_response e = Some r \<and> resp_status r = 200"
  by (auto simp add: catch_reply_fallback_def split: option.splits)

lemma find_js_entry_error:
  "find_js (entry_matches w today) rs = Inl e \<Longrightarrow> err_response e = None"
proof (induction rs)
  case Nil
  then show ?case by simp
next
  case (Cons a rs)
  then show ?case
    by (auto simp add: entry_matches_def Let_def range_error_def
          split: sum.splits if_splits jsval.splits option.splits)
qed

lemma scan_all_not_200:
  "snd (scan_all w today data error) = Return rep \<Longrightarrow> status rep = 500"
  by (auto simp add: scan_all_def Let_def database_error_def
        split: if_splits option.splits sum.splits)

lemma scan_all_throw:
  "snd (scan_all w today data error) = Throw e \<Longrightarrow> err_response e = None"
  by (auto simp add: scan_all_def Let_def
        split: if_splits option.splits sum.splits dest: find_js_entry_error)

lemma respond_today_error:
  "snd (respond_today w today data error) = Inl e \<Longrightarrow> err_response e = Some r \<Longrightarrow>
   \<not> (200 \<le> resp_status r \<and> resp_status r < 300)"
  by (auto simp add: respond_today_def Let_def
        split: option.splits if_splits sum.splits dest: axios_error_not_2xx)

lemma respond_today_200:
  "snd (respond_today w today data error) = Inr rep \<Longrightarrow> status rep = 200 \<Longrightarrow>
   \<exists>req r. HttpGet req \<in> set (fst (respond_today w today data error))
       \<and> tmdb w req = Answer r
       \<and> body rep = JObj [(''date'', JStr today), (''movie'', resp_data r)]"
  by (auto simp add: respond_today_def Let_def database_error_def not_found_debug_def no_id_column_def
        split: option.splits if_splits sum.splits dest: axios_ok_answer)

lemma mystery_movie_200:
  assumes "status (snd (mystery_movie w)) = 200"
  shows "\<exists>req r. HttpGet req \<in> set (fst (mystery_movie w)) \<and> tmdb w req = Answer r
           \<and> body (snd (mystery_movie w))
               = JObj [(''date'', JStr (split_T_0 (now_iso w))), (''movie'', resp_data r)]"
proof -
  let ?today = "split_T_0 (now_iso w)"
  obtain t1 data1 error where l: "lookup_today w ?today = (t1, data1, error)"
    by (cases "lookup_today w ?today") auto
  obtain t2 f where s: "scan_all w ?today data1 error = (t2, f)"
    by (cases "scan_all w ?today data1 error") auto
  show ?thesis
  proof (cases f)
    case (Return rep)
    then have "snd (mystery_movie w) = rep" using l s by (simp add: mystery_movie_def)
    moreover have "status rep = 500" using scan_all_not_200 [of w ?today data1 error rep] s Return by simp
    ultimately show ?thesis using assms by simp
  next
    case (Throw e)
    then have "snd (mystery_movie w) = catch_reply_fallback e" using l s by (simp add: mystery_movie_def)
    moreover have "err_response e = None" using scan_all_throw [of w ?today data1 error e] s Throw by simp
    ultimately show ?thesis using assms catch_reply_fallback_200 [of e] by simp
  next
    case (Continue data)
    obtain t3 r where r: "respond_today w ?today data error = (t3, r)"
      by (cases "respond_today w ?today data error") auto
    show ?thesis
    proof (cases r)
      case (Inl e)
      then have "snd (mystery_movie w) = catch_reply_fallback e"
        using l s r Continue by (simp add: mystery_movie_def)
      then obtain x where "err_response e = Some x" "resp_status x = 200"
        using assms catch_reply_fallback_200 [of e] by auto
      then show ?thesis
        using respond_today_error [of w ?today data error e x] r Inl by simp
    next
      case (Inr rep)
      then have m: "mystery_movie w = (t1 @ t2 @ t3, rep)"
        using l s r Continue by (simp add: mystery_movie_def)
      then have "status rep = 200" using assms by simp
      then obtain req x where "HttpGet req \<in> set t3" "tmdb w req = Answer x"
        "body rep = JObj [(''date'', JStr ?today), (''movie'', resp_data x)]"
        using respond_today_200 [of w ?today data error rep] r Inr by auto
      then show ?thesis using m by auto
    qed
  qed
qed

lemma axios_error_reply:
  "axios_get w req = Inl e \<Longrightarrow> status (catch_reply what e) \<noteq> 200"
  using axios_error_not_2xx [of w req e] catch_reply_200 [of what e] by fastforce

lemma fetch_error_reply:
  "snd (fetchMovieDetails w m) = Inl e \<Longrightarrow> status (catch_reply what e) \<noteq> 200"
  using fetch_error_not_2xx [of w m e] catch_reply_200 [of what e] by fastforce

lemma mystery_movie_simple_200:
  assumes "status (snd (mystery_movie_simple w)) = 200"
  shows "\<exists>req r. HttpGet req \<in> set (fst (mystery_movie_simple w)) \<and> tmdb w req = Answer r
           \<and> body (snd (mystery_movie_simple w))
               = JObj [(''date'', JStr (split_T_0 (now_iso w))), (''movie'', resp_data r)]"
  using assms
  by (auto simp add: mystery_movie_simple_def Let_def database_error_def no_movie_def
        split: option.splits if_splits sum.splits
        dest: axios_ok_answer axios_error_reply)

lemma fetch_ok_has_cast_crew:
  "snd (fetchMovieDetails w m) = Inr v \<Longrightarrow>
   \<exists>fs. v = JObj fs \<and> ''cast'' \<in> fst ` set fs \<and> ''crew'' \<in> fst ` set fs"
  by (auto simp add: fetch_result split: sum.splits if_splits dest: combine_has_cast_crew)

lemma api_mystery_movie_200:
  assumes "status (snd (api_mystery_movie w)) = 200"
  shows "\<exists>data fs.
           db_data (db_single w (calendar_query ''calendar'' ''*'' (split_T_0 (now_iso w)))) = Some data
           \<and> snd (fetchMovieDetails w (field data ''movie'')) = Inr (JObj fs)
           \<and> ''cast'' \<in> fst ` set fs \<and> ''crew'' \<in> fst ` set fs
           \<and> body (snd (api_mystery_movie w))
               = JObj [(''date'', JStr (split_T_0 (now_iso w))),
                       (''quote_en'', field data ''quote_en''),
                       (''quote_pl'', field data ''quote_pl''),
                       (''description'', field data ''description''),
                       (''movie'', JObj fs)]"
proof -
  let ?q = "calendar_query ''calendar'' ''*'' (split_T_0 (now_iso w))"
  from assms obtain data where
    d: "db_err (db_single w ?q) = None" "db_data (db_single w ?q) = Some data"
       "truthy (field data ''movie'')"
    by (auto simp add: api_mystery_movie_def Let_def database_error_def no_movie_def
          split: option.splits if_splits)
  obtain t res where f: "fetchMovieDetails w (field data ''movie'') = (t, res)"
    by (cases "fetchMovieDetails w (field data ''movie'')") auto
  show ?thesis
  proof (cases res)
    case (Inl e)
    then have "snd (api_mystery_movie w) = catch_reply ''Failed to fetch movie from TheMovieDB'' e"
      using d f by (simp add: api_mystery_movie_def Let_def)
    then show ?thesis
      using assms fetch_error_reply [of w "field data ''movie''" e] f Inl by simp
  next
    case (Inr v)
    then have "snd (fetchMovieDetails w (field data ''movie'')) = Inr v"
      using f by simp
    then obtain fs where fs: "v = JObj fs" "''cast'' \<in> fst ` set fs" "''crew'' \<in> fst ` set fs"
      using fetch_ok_has_cast_crew by blast
    have "body (snd (api_mystery_movie w))
               = JObj [(''date'', JStr (split_T_0 (now_iso w))),
                       (''quote_en'', field data ''quote_en''),
                       (''quote_pl'', field data ''quote_pl''),
                       (''description'', field data ''description''),
                       (''movie'', v)]"
      using d f Inr by (simp add: api_mystery_movie_def Let_def)
    then show ?thesis using d f Inr fs by auto
  qed
qed

lemma split_T_0_date: "CHR ''T'' \<notin> set d \<Longrightarrow> split_T_0 (d @ CHR ''T'' # rest) = d"
  by (induction d) (auto simp add: split_T_0_def)

section \<open>The movie identifier of a row\<close>

lemma movie_id_of_priority:
  "movie_id_of d =
     (if truthy (field d ''movie_id'') then field d ''movie_id''
      else if truthy (field d ''movieId'') then field d ''movieId''
      else if truthy (field d ''movieid'') then field d ''movieid''
      else field d ''movie'')"
  by (simp add: movie_id_of_def js_or_def)

lemma movie_id_of_absent:
  "map_of d ''movie_id'' = None \<Longrightarrow> map_of d ''movieId'' = None \<Longrightarrow>
   map_of d ''movieid'' = None \<Longrightarrow> map_of d ''movie'' = None \<Longrightarrow>
   \<not> truthy (movie_id_of d)"
  by (simp add: movie_id_of_def js_or_def field_def)

lemma mystery_movie_row:
  "db_err (db_single w (calendar_query ''calendar'' ''*'' (split_T_0 (now_iso w)))) = None \<Longrightarrow>
   db_data (db_single w (calendar_query ''calendar'' ''*'' (split_T_0 (now_iso w)))) = Some d \<Longrightarrow>
   mystery_movie w =
     (DbQuery (calendar_query ''calendar'' ''*'' (split_T_0 (now_iso w)))
        # fst (respond_today w (split_T_0 (now_iso w)) (Some d) None),
      case snd (respond_today w (split_T_0 (now_iso w)) (Some d) None) of
        Inr rep \<Rightarrow> rep
      | Inl e \<Rightarrow> catch_reply_fallback e)"
  by (cases "respond_today w (split_T_0 (now_iso w)) (Some d) None")
     (simp add: mystery_movie_def lookup_today_def scan_all_def Let_def split: sum.splits)

text \<open>
  C1, as the code has it. The handler of server.js takes the identifier of a row from
  \<open>movie_id\<close>, \<open>movieId\<close>, \<open>movieid\<close>, \<open>movie\<close>, the first of them that is truthy; it asks
  the service for that identifier, and when the row has none of the four fields it
  answers 500 with the names of the fields the row has. \<open>GET /api/mystery_movie\<close>
  answers a row with none of the four fields with 404 and makes no request; when the
  field \<open>movie\<close> of the row is truthy it fetches the details for it.
\<close>

theorem movie_id_by_priority_or_schema_error:
  "movie_id_of d =
     (if truthy (field d ''movie_id'') then field d ''movie_id''
      else if truthy (field d ''movieId'') then field d ''movieId''
      else if truthy (field d ''movieid'') then field d ''movieid''
      else field d ''movie'')
   \<and> (truthy (movie_id_of d) \<longrightarrow>
        fst (respond_today w today (Some d) None) = [HttpGet (details_request w ''en-US'' (movie_id_of d))])
   \<and> (map_of d ''movie_id'' = None \<and> map_of d ''movieId'' = None
        \<and> map_of d ''movieid'' = None \<and> map_of d ''movie'' = None
      \<longrightarrow> respond_today w today (Some d) None =
            ([], Inr \<lparr>status = 500,
                      body = JObj [(''error'', JStr ''Movie ID column not found''),
                                   (''availableFields'', JArr (map (\<lambda>kv. JStr (fst kv)) d))]\<rparr>))
   \<and> (db_err (db_single w (calendar_query ''calendar'' ''*'' (split_T_0 (now_iso w)))) = None
        \<and> db_data (db_single w (calendar_query ''calendar'' ''*'' (split_T_0 (now_iso w)))) = Some d
        \<and> map_of d ''movie_id'' = None \<and> map_of d ''movieId'' = None
        \<and> map_of d ''movieid'' = None \<and> map_of d ''movie'' = None
      \<longrightarrow> mystery_movie w =
            ([DbQuery (calendar_query ''calendar'' ''*'' (split_T_0 (now_iso w)))],
             \<lparr>status = 500,
              body = JObj [(''error'', JStr ''Movie ID column not found''),
                           (''availableFields'', JArr (map (\<lambda>kv. JStr (fst kv)) d))]\<rparr>))
   \<and> (db_err (db_single w (calendar_query ''calendar'' ''*'' (split_T_0 (now_iso w)))) = None
        \<and> db_data (db_single w (calendar_query ''calendar'' ''*'' (split_T_0 (now_iso w)))) = Some d
        \<and> map_of d ''movie_id'' = None \<and> map_of d ''movieId'' = None
        \<and> map_of d ''movieid'' = None \<and> map_of d ''movie'' = None
      \<longrightarrow> api_mystery_movie w =
            ([DbQuery (calendar_query ''calendar'' ''*'' (split_T_0 (now_iso w)))],
             \<lparr>status = 404, body = JObj [(''error'', JStr ''No movie found for today'')]\<rparr>))
   \<and> (db_err (db_single w (calendar_query ''calendar'' ''*'' (split_T_0 (now_iso w)))) = None
        \<and> db_data (db_single w (calendar_query ''calendar'' ''*'' (split_T_0 (now_iso w)))) = Some d
        \<and> truthy (field d ''movie'')
      \<longrightarrow> fst (api_mystery_movie w) =
            [DbQuery (calendar_query ''calendar'' ''*'' (split_T_0 (now_iso w))),
             HttpGet (details_request w language (field d ''movie'')),
             HttpGet (credits_request w (field d ''movie''))])"
proof -
  let ?q = "calendar_query ''calendar'' ''*'' (split_T_0 (now_iso w))"
  let ?none = "map_of d ''movie_id'' = None \<and> map_of d ''movieId'' = None
        \<and> map_of d ''movieid'' = None \<and> map_of d ''movie'' = None"
  have a: "movie_id_of d =
     (if truthy (field d ''movie_id'') then field d ''movie_id''
      else if truthy (field d ''movieId'') then field d ''movieId''
      else if truthy (field d ''movieid'') then field d ''movieid''
      else field d ''movie'')"
    by (rule movie_id_of_priority)
  have b: "truthy (movie_id_of d) \<longrightarrow>
        fst (respond_today w today (Some d) None) = [HttpGet (details_request w ''en-US'' (movie_id_of d))]"
    by (simp add: respond_today_def Let_def)
  have c: "\<And>t. ?none \<longrightarrow> respond_today w t (Some d) None =
            ([], Inr \<lparr>status = 500,
                      body = JObj [(''error'', JStr ''Movie ID column not found''),
                                   (''availableFields'', JArr (map (\<lambda>kv. JStr (fst kv)) d))]\<rparr>)"
    using movie_id_of_absent [of d]
    by (simp add: respond_today_def Let_def no_id_column_def object_keys_def)
  have e: "db_err (db_single w ?q) = None \<and> db_data (db_single w ?q) = Some d \<and> ?none
      \<longrightarrow> mystery_movie w =
            ([DbQuery ?q],
             \<lparr>status = 500,
              body = JObj [(''error'', JStr ''Movie ID column not found''),
                           (''availableFields'', JArr (map (\<lambda>kv. JStr (fst kv)) d))]\<rparr>)"
    using c [of "split_T_0 (now_iso w)"] by (simp add: mystery_movie_row)
  have f: "db_err (db_single w ?q) = None \<and> db_data (db_single w ?q) = Some d \<and> ?none
      \<longrightarrow> api_mystery_movie w =
            ([DbQuery ?q],
             \<lparr>status = 404, body = JObj [(''error'', JStr ''No movie found for today'')]\<rparr>)"
    by (simp add: api_mystery_movie_def Let_def no_movie_def field_def)
  have g: "db_err (db_single w ?q) = None \<and> db_data (db_single w ?q) = Some d
        \<and> truthy (field d ''movie'')
      \<longrightarrow> fst (api_mystery_movie w) =
            [DbQuery ?q,
             HttpGet (details_request w language (field d ''movie'')),
             HttpGet (credits_request w (field d ''movie''))]"
    using fetch_trace [of w "field d ''movie''"]
    by (cases "fetchMovieDetails w (field d ''movie'')")
       (auto simp add: api_mystery_movie_def Let_def split: sum.splits)
  show ?thesis
    by (rule conjI [OF a conjI [OF b conjI [OF c conjI [OF e conjI [OF f g]]]]])
qed

theorem movie_id_by_priority_or_schema_error_witness:
  "mystery_movie (example_world (single_of (Some row_without_id)) (rows_of [])) =
     ([DbQuery (calendar_query ''calendar'' ''*'' ''2024-01-15'')],
      \<lparr>status = 500,
       body = JObj [(''error'', JStr ''Movie ID column not found''),
                    (''availableFields'', JArr [JStr ''id'', JStr ''date''])]\<rparr>)
   \<and> fst (respond_today (example_world (single_of None) (rows_of [])) ''2024-01-15''
             (Some row_with_movie_id) None)
       = [HttpGet \<lparr>req_url = ''https://api.themoviedb.org/3/movie/550'',
                   req_params = [(''api_key'', JStr ''k''), (''language'', JStr ''en-US'')]\<rparr>]
   \<and> fst (api_mystery_movie (example_world (single_of (Some row_with_movie)) (rows_of [])))
       = [DbQuery (calendar_query ''calendar'' ''*'' ''2024-01-15''),
          HttpGet \<lparr>req_url = ''https://api.themoviedb.org/3/movie/550'',
                   req_params = [(''api_key'', JStr ''k''), (''language'', JStr ''pl-PL'')]\<rparr>,
          HttpGet \<lparr>req_url = ''https://api.themoviedb.org/3/movie/550/credits'',
                   req_params = [(''api_key'', JStr ''k''), (''language'', JStr ''pl-PL'')]\<rparr>]"
proof -
  let ?u = "example_world (single_of (Some row_without_id)) (rows_of [])"
  let ?v = "example_world (single_of None) (rows_of [])"
  let ?w = "example_world (single_of (Some row_with_movie)) (rows_of [])"
  have today: "split_T_0 (now_iso ?u) = ''2024-01-15''" "split_T_0 (now_iso ?w) = ''2024-01-15''"
    by (simp_all add: example_world_def split_T_0_def)
  have du: "db_err (db_single ?u (calendar_query ''calendar'' ''*'' ''2024-01-15'')) = None
          \<and> db_data (db_single ?u (calendar_query ''calendar'' ''*'' ''2024-01-15'')) = Some row_without_id"
    by (simp add: example_world_def single_of_def)
  have nu: "map_of row_without_id ''movie_id'' = None \<and> map_of row_without_id ''movieId'' = None
        \<and> map_of row_without_id ''movieid'' = None \<and> map_of row_without_id ''movie'' = None"
    by (simp add: row_without_id_def)
  have ku: "map (\<lambda>kv. JStr (fst kv)) row_without_id = [JStr ''id'', JStr ''date'']"
    by (simp add: row_without_id_def)
  have one: "mystery_movie ?u =
     ([DbQuery (calendar_query ''calendar'' ''*'' ''2024-01-15'')],
      \<lparr>status = 500,
       body = JObj [(''error'', JStr ''Movie ID column not found''),
                    (''availableFields'', JArr [JStr ''id'', JStr ''date''])]\<rparr>)"
    using movie_id_by_priority_or_schema_error [of row_without_id ?u, unfolded today] du nu
    by (simp add: ku)
  have id: "movie_id_of row_with_movie_id = JNum 550" by code_simp
  have rq: "details_request ?v ''en-US'' (JNum 550) =
              \<lparr>req_url = ''https://api.themoviedb.org/3/movie/550'',
               req_params = [(''api_key'', JStr ''k''), (''language'', JStr ''en-US'')]\<rparr>"
    by code_simp
  have two: "fst (respond_today ?v ''2024-01-15'' (Some row_with_movie_id) None)
       = [HttpGet \<lparr>req_url = ''https://api.themoviedb.org/3/movie/550'',
                   req_params = [(''api_key'', JStr ''k''), (''language'', JStr ''en-US'')]\<rparr>]"
    using movie_id_by_priority_or_schema_error [of row_with_movie_id ?v "''2024-01-15''"]
    by (simp add: id rq)
  have dw: "db_err (db_single ?w (calendar_query ''calendar'' ''*'' ''2024-01-15'')) = None
          \<and> db_data (db_single ?w (calendar_query ''calendar'' ''*'' ''2024-01-15'')) = Some row_with_movie"
    by (simp add: example_world_def single_of_def)
  have mw: "field row_with_movie ''movie'' = JNum 550"
    by (simp add: row_with_movie_def field_def)
  have r1: "details_request ?w language (JNum 550) =
              \<lparr>req_url = ''https://api.themoviedb.org/3/movie/550'',
               req_params = [(''api_key'', JStr ''k''), (''language'', JStr ''pl-PL'')]\<rparr>"
    by code_simp
  have r2: "credits_request ?w (JNum 550) =
              \<lparr>req_url = ''https://api.themoviedb.org/3/movie/550/credits'',
               req_params = [(''api_key'', JStr ''k''), (''language'', JStr ''pl-PL'')]\<rparr>"
    by code_simp
  have three: "fst (api_mystery_movie ?w)
       = [DbQuery (calendar_query ''calendar'' ''*'' ''2024-01-15''),
          HttpGet \<lparr>req_url = ''https://api.themoviedb.org/3/movie/550'',
                   req_params = [(''api_key'', JStr ''k''), (''language'', JStr ''pl-PL'')]\<rparr>,
          HttpGet \<lparr>req_url = ''https://api.themoviedb.org/3/movie/550/credits'',
                   req_params = [(''api_key'', JStr ''k''), (''language'', JStr ''pl-PL'')]\<rparr>]"
    using movie_id_by_priority_or_schema_error [of row_with_movie ?w, unfolded today] dw
    by (simp add: mw r1 r2)
  from one two three show ?thesis by simp
qed

text \<open>
  C1, as the spec has it, fails on \<open>GET /api/mystery_movie\<close>: for a row with none of the
  four fields it answers 404, not 500, and lists no field names; and it does not look at
  \<open>movie_id\<close>, so a row that has its identifier there is answered 404 as well.
\<close>

theorem api_mystery_movie_missing_id_counterexample:
  "map_of row_without_id ''movie_id'' = None \<and> map_of row_without_id ''movieId'' = None
   \<and> map_of row_without_id ''movieid'' = None \<and> map_of row_without_id ''movie'' = None
   \<and> api_mystery_movie (example_world (single_of (Some row_without_id)) (rows_of [])) =
       ([DbQuery (calendar_query ''calendar'' ''*'' ''2024-01-15'')],
        \<lparr>status = 404, body = JObj [(''error'', JStr ''No movie found for today'')]\<rparr>)
   \<and> field row_with_movie_id ''movie_id'' = JNum 550
   \<and> api_mystery_movie (example_world (single_of (Some row_with_movie_id)) (rows_of [])) =
       ([DbQuery (calendar_query ''calendar'' ''*'' ''2024-01-15'')],
        \<lparr>status = 404, body = JObj [(''error'', JStr ''No movie found for today'')]\<rparr>)"
  by code_simp

section \<open>The status of an answer after an error of the service\<close>







section \<open>The scan of all rows\<close>

lemma find_js_Inl_iff:
  "find_js p xs = Inl e \<longleftrightarrow>
     (\<exists>pre x post. xs = pre @ x # post \<and> p x = Inl e \<and> (\<forall>y \<in> set pre. p y = Inr False))"
proof (induction xs)
  case Nil
  then show ?case by simp
next
  case (Cons a xs)
  show ?case
  proof (cases "p a")
    case (Inl e')
    have "(\<exists>pre x post. a # xs = pre @ x # post \<and> p x = Inl e
             \<and> (\<forall>y \<in> set pre. p y = Inr False)) \<longleftrightarrow> e' = e"
    proof
      assume "\<exists>pre x post. a # xs = pre @ x # post \<and> p x = Inl e
             \<and> (\<forall>y \<in> set pre. p y = Inr False)"
      then obtain pre x post where h: "a # xs = pre @ x # post" "p x = Inl e"
        "\<forall>y \<in> set pre. p y = Inr False" by blast
      then show "e' = e" using Inl by (cases pre) auto
    next
      assume "e' = e"
      then have "a # xs = [] @ a # xs \<and> p a = Inl e \<and> (\<forall>y \<in> set []. p y = Inr False)"
        using Inl by simp
      then show "\<exists>pre x post. a # xs = pre @ x # post \<and> p x = Inl e
             \<and> (\<forall>y \<in> set pre. p y = Inr False)" by blast
    qed
    then show ?thesis using Inl by auto
  next
    case (Inr b)
    show ?thesis
    proof (cases b)
      case True
      have "\<not> (\<exists>pre x post. a # xs = pre @ x # post \<and> p x = Inl e
             \<and> (\<forall>y \<in> set pre. p y = Inr False))"
      proof
        assume "\<exists>pre x post. a # xs = pre @ x # post \<and> p x = Inl e
             \<and> (\<forall>y \<in> set pre. p y = Inr False)"
        then obtain pre x post where h: "a # xs = pre @ x # post" "p x = Inl e"
          "\<forall>y \<in> set pre. p y = Inr False" by blast
        then show False using Inr True by (cases pre) auto
      qed
      then show ?thesis using Inr True by simp
    next
      case False
      have "(\<exists>pre x post. a # xs = pre @ x # post \<and> p x = Inl e
               \<and> (\<forall>y \<in> set pre. p y = Inr False))
            \<longleftrightarrow> (\<exists>pre x post. xs = pre @ x # post \<and> p x = Inl e
               \<and> (\<forall>y \<in> set pre. p y = Inr False))"
      proof
        assume "\<exists>pre x post. a # xs = pre @ x # post \<and> p x = Inl e
               \<and> (\<forall>y \<in> set pre. p y = Inr False)"
        then obtain pre x post where h: "a # xs = pre @ x # post" "p x = Inl e"
          "\<forall>y \<in> set pre. p y = Inr False" by blast
        show "\<exists>pre x post. xs = pre @ x # post \<and> p x = Inl e
               \<and> (\<forall>y \<in> set pre. p y = Inr False)"
        proof (cases pre)
          case Nil
          then show ?thesis using h Inr False by auto
        next
          case (Cons c pre')
          then have "xs = pre' @ x # post \<and> p x = Inl e \<and> (\<forall>y \<in> set pre'. p y = Inr False)"
            using h by auto
          then show ?thesis by blast
        qed
      next
        assume "\<exists>pre x post. xs = pre @ x # post \<and> p x = Inl e
               \<and> (\<forall>y \<in> set pre. p y = Inr False)"
        then obtain pre x post where h: "xs = pre @ x # post" "p x = Inl e"
          "\<forall>y \<in> set pre. p y = Inr False" by blast
        then have "a # xs = (a # pre) @ x # post \<and> p x = Inl e
               \<and> (\<forall>y \<in> set (a # pre). p y = Inr False)"
          using Inr False by simp
        then show "\<exists>pre x post. a # xs = pre @ x # post \<and> p x = Inl e
               \<and> (\<forall>y \<in> set pre. p y = Inr False)" by blast
      qed
      then show ?thesis using Inr False Cons.IH by simp
    qed
  qed
qed

lemma entry_matches_Inl_iff:
  "entry_matches w today r = Inl e \<longleftrightarrow>
     truthy (field r ''date'') \<and> (\<forall>s. field r ''date'' \<noteq> JStr s)
     \<and> date_iso w (field r ''date'') = None \<and> e = range_error"
  by (cases "field r ''date''")
     (auto simp add: entry_matches_def Let_def split: option.splits)

lemma entry_matches_falsy:
  "\<not> truthy (field r ''date'') \<Longrightarrow> entry_matches w today r = Inr False"
  by (simp add: entry_matches_def)

lemma scan_all_rows:
  "db_err (db_rows w all_rows_query) = None \<Longrightarrow>
   db_data (db_rows w all_rows_query) = Some rs \<Longrightarrow>
   scan_all w today None None =
     ([DbQuery all_rows_query],
      case find_js (entry_matches w today) rs of
        Inl e \<Rightarrow> Throw e
      | Inr found \<Rightarrow> Continue found)"
  by (cases rs) (simp_all add: scan_all_def Let_def)

lemma mystery_movie_after_scan:
  assumes "snd (lookup_today w (split_T_0 (now_iso w))) = (None, None)"
    and "db_err (db_rows w all_rows_query) = None"
    and "db_data (db_rows w all_rows_query) = Some rs"
  shows "mystery_movie w =
     (case find_js (entry_matches w (split_T_0 (now_iso w))) rs of
        Inl e \<Rightarrow>
          (fst (lookup_today w (split_T_0 (now_iso w))) @ [DbQuery all_rows_query],
           catch_reply_fallback e)
      | Inr found \<Rightarrow>
          (fst (lookup_today w (split_T_0 (now_iso w))) @ [DbQuery all_rows_query]
             @ fst (respond_today w (split_T_0 (now_iso w)) found None),
           case snd (respond_today w (split_T_0 (now_iso w)) found None) of
             Inr rep \<Rightarrow> rep
           | Inl e \<Rightarrow> catch_reply_fallback e))"
proof -
  let ?today = "split_T_0 (now_iso w)"
  obtain t1 where l: "lookup_today w ?today = (t1, None, None)"
    using assms(1) by (cases "lookup_today w ?today") auto
  note s = scan_all_rows [OF assms(2) assms(3), of ?today]
  show ?thesis
  proof (cases "find_js (entry_matches w ?today) rs")
    case (Inl e)
    then show ?thesis using l s by (simp add: mystery_movie_def)
  next
    case (Inr found)
    then show ?thesis
      using l s
      by (cases "respond_today w ?today found None")
         (simp add: mystery_movie_def split: sum.splits)
  qed
qed

lemma catch_range_error:
  "catch_reply_fallback range_error =
     \<lparr>status = 500,
      body = JObj [(''error'', JStr ''Internal server error''),
                   (''details'', JStr ''Invalid time value'')]\<rparr>"
  by (simp add: catch_reply_fallback_def range_error_def unknown_or_def js_or_def)

lemma respond_today_none:
  "respond_today w today None None =
     ([DbQuery debug_query], Inr (not_found_debug today (db_data (db_rows w debug_query))))"
  by (simp add: respond_today_def)

lemma all_rows_query_explicit:
  "all_rows_query =
     \<lparr>q_table = ''calendar'', q_columns = ''*'', q_eq = None, q_limit = None, q_single = False\<rparr>"
  by (simp add: all_rows_query_def)

text \<open>
  C3, as the code has it. In server.js the query for all rows, which has no filter and
  no limit, is made exactly when the lookup ends with no error and no row: the primary
  query returned neither, or it failed because the table is missing and the query on
  \<open>Calendar\<close> returned neither. It is not made when the lookup ends with an error. The
  handler then goes through the rows in the order returned, testing the date of each
  against today's date. It goes on with the first row that matches, if it has tested
  all rows before it without an exception; it answers 404 if no row matches; and if the
  date of a row cannot be converted before any row has matched, it answers 500 and looks
  no further, whatever the later rows are. A row matches when its date is truthy and
  equals today's date after normalisation: the part before the first \<open>T\<close> of a string, or
  of the ISO string that \<open>Date\<close> makes of any other value. A row whose date is absent or
  falsy does not match. The test throws when the date is truthy, is not a string, and
  makes an invalid \<open>Date\<close>.
\<close>

theorem full_scan_first_match_unless_throw:
  assumes "today = split_T_0 (now_iso w)"
  shows
  "all_rows_query =
     \<lparr>q_table = ''calendar'', q_columns = ''*'', q_eq = None, q_limit = None, q_single = False\<rparr>
   \<and> (DbQuery all_rows_query \<in> set (fst (mystery_movie w)))
     = ((db_err (db_single w (calendar_query ''calendar'' ''*'' today)) = None
         \<and> db_data (db_single w (calendar_query ''calendar'' ''*'' today)) = None)
        \<or> (\<exists>e. db_err (db_single w (calendar_query ''calendar'' ''*'' today)) = Some e
              \<and> relation_missing e
              \<and> db_err (db_single w (calendar_query ''Calendar'' ''*'' today)) = None
              \<and> db_data (db_single w (calendar_query ''Calendar'' ''*'' today)) = None))
   \<and> (DbQuery all_rows_query \<in> set (fst (mystery_movie w)))
     = (snd (lookup_today w today) = (None, None))
   \<and> (snd (snd (lookup_today w today)) \<noteq> None
        \<longrightarrow> DbQuery all_rows_query \<notin> set (fst (mystery_movie w)))
   \<and> (\<forall>rs pre x post.
         snd (lookup_today w today) = (None, None)
         \<and> db_err (db_rows w all_rows_query) = None \<and> db_data (db_rows w all_rows_query) = Some rs
         \<and> rs = pre @ x # post
         \<and> (\<forall>y \<in> set pre. entry_matches w today y = Inr False)
         \<and> entry_matches w today x = Inr True
       \<longrightarrow> mystery_movie w =
             (fst (lookup_today w today) @ [DbQuery all_rows_query]
                @ fst (respond_today w today (Some x) None),
              case snd (respond_today w today (Some x) None) of
                Inr rep \<Rightarrow> rep
              | Inl e \<Rightarrow> catch_reply_fallback e))
   \<and> (\<forall>rs.
         snd (lookup_today w today) = (None, None)
         \<and> db_err (db_rows w all_rows_query) = None \<and> db_data (db_rows w all_rows_query) = Some rs
         \<and> (\<forall>y \<in> set rs. entry_matches w today y = Inr False)
       \<longrightarrow> mystery_movie w =
             (fst (lookup_today w today) @ [DbQuery all_rows_query, DbQuery debug_query],
              not_found_debug today (db_data (db_rows w debug_query)))
           \<and> status (snd (mystery_movie w)) = 404)
   \<and> (\<forall>rs pre x post e.
         snd (lookup_today w today) = (None, None)
         \<and> db_err (db_rows w all_rows_query) = None \<and> db_data (db_rows w all_rows_query) = Some rs
         \<and> rs = pre @ x # post
         \<and> (\<forall>y \<in> set pre. entry_matches w today y = Inr False)
         \<and> entry_matches w today x = Inl e
       \<longrightarrow> mystery_movie w =
             (fst (lookup_today w today) @ [DbQuery all_rows_query],
              \<lparr>status = 500,
               body = JObj [(''error'', JStr ''Internal server error''),
                            (''details'', JStr ''Invalid time value'')]\<rparr>))
   \<and> (\<forall>r. entry_matches w today r = Inr True \<longleftrightarrow>
          truthy (field r ''date'')
          \<and> (case field r ''date'' of
               JStr s \<Rightarrow> split_T_0 s = today
             | d \<Rightarrow> (\<exists>isoString. date_iso w d = Some isoString \<and> split_T_0 isoString = today)))
   \<and> (\<forall>r e. entry_matches w today r = Inl e \<longleftrightarrow>
          truthy (field r ''date'') \<and> (\<forall>s. field r ''date'' \<noteq> JStr s)
          \<and> date_iso w (field r ''date'') = None \<and> e = range_error)
   \<and> (\<forall>r. map_of r ''date'' = None \<or> \<not> truthy (field r ''date'')
          \<longrightarrow> entry_matches w today r = Inr False)"
proof -
  let ?p = "db_single w (calendar_query ''calendar'' ''*'' today)"
  let ?r = "db_single w (calendar_query ''Calendar'' ''*'' today)"
  note t = assms
  have q: "all_rows_query =
     \<lparr>q_table = ''calendar'', q_columns = ''*'', q_eq = None, q_limit = None, q_single = False\<rparr>"
    by (rule all_rows_query_explicit)
  have a: "(DbQuery all_rows_query \<in> set (fst (mystery_movie w)))
     = ((db_err ?p = None \<and> db_data ?p = None)
        \<or> (\<exists>e. db_err ?p = Some e \<and> relation_missing e \<and> db_err ?r = None \<and> db_data ?r = None))"
    unfolding scan_runs_iff t [symmetric] lookup_today_result
    by (cases "db_err ?p"; cases "db_err ?r") auto
  have a': "(DbQuery all_rows_query \<in> set (fst (mystery_movie w)))
     = (snd (lookup_today w today) = (None, None))"
    unfolding scan_runs_iff t ..
  have b: "snd (snd (lookup_today w today)) \<noteq> None
        \<longrightarrow> DbQuery all_rows_query \<notin> set (fst (mystery_movie w))"
    unfolding a' by (auto simp add: prod_eq_iff)
  have c: "\<forall>rs pre x post.
         snd (lookup_today w today) = (None, None)
         \<and> db_err (db_rows w all_rows_query) = None \<and> db_data (db_rows w all_rows_query) = Some rs
         \<and> rs = pre @ x # post
         \<and> (\<forall>y \<in> set pre. entry_matches w today y = Inr False)
         \<and> entry_matches w today x = Inr True
       \<longrightarrow> mystery_movie w =
             (fst (lookup_today w today) @ [DbQuery all_rows_query]
                @ fst (respond_today w today (Some x) None),
              case snd (respond_today w today (Some x) None) of
                Inr rep \<Rightarrow> rep
              | Inl e \<Rightarrow> catch_reply_fallback e)"
  proof (intro allI impI)
    fix rs pre x post
    assume h: "snd (lookup_today w today) = (None, None)
         \<and> db_err (db_rows w all_rows_query) = None \<and> db_data (db_rows w all_rows_query) = Some rs
         \<and> rs = pre @ x # post
         \<and> (\<forall>y \<in> set pre. entry_matches w today y = Inr False)
         \<and> entry_matches w today x = Inr True"
    then have "find_js (entry_matches w today) rs = Inr (Some x)"
      unfolding find_js_Some_iff by blast
    then show "mystery_movie w =
             (fst (lookup_today w today) @ [DbQuery all_rows_query]
                @ fst (respond_today w today (Some x) None),
              case snd (respond_today w today (Some x) None) of
                Inr rep \<Rightarrow> rep
              | Inl e \<Rightarrow> catch_reply_fallback e)"
      using h mystery_movie_after_scan [of w rs] by (simp add: t)
  qed
  have d: "\<forall>rs.
         snd (lookup_today w today) = (None, None)
         \<and> db_err (db_rows w all_rows_query) = None \<and> db_data (db_rows w all_rows_query) = Some rs
         \<and> (\<forall>y \<in> set rs. entry_matches w today y = Inr False)
       \<longrightarrow> mystery_movie w =
             (fst (lookup_today w today) @ [DbQuery all_rows_query, DbQuery debug_query],
              not_found_debug today (db_data (db_rows w debug_query)))
           \<and> status (snd (mystery_movie w)) = 404"
  proof (intro allI impI)
    fix rs
    assume h: "snd (lookup_today w today) = (None, None)
         \<and> db_err (db_rows w all_rows_query) = None \<and> db_data (db_rows w all_rows_query) = Some rs
         \<and> (\<forall>y \<in> set rs. entry_matches w today y = Inr False)"
    then have "find_js (entry_matches w today) rs = Inr None"
      unfolding find_js_None_iff by blast
    then have "mystery_movie w =
             (fst (lookup_today w today) @ [DbQuery all_rows_query, DbQuery debug_query],
              not_found_debug today (db_data (db_rows w debug_query)))"
      using h mystery_movie_after_scan [of w rs] by (simp add: t respond_today_none)
    then show "mystery_movie w =
             (fst (lookup_today w today) @ [DbQuery all_rows_query, DbQuery debug_query],
              not_found_debug today (db_data (db_rows w debug_query)))
           \<and> status (snd (mystery_movie w)) = 404"
      by (simp add: not_found_debug_def)
  qed
  have e: "\<forall>rs pre x post e.
         snd (lookup_today w today) = (None, None)
         \<and> db_err (db_rows w all_rows_query) = None \<and> db_data (db_rows w all_rows_query) = Some rs
         \<and> rs = pre @ x # post
         \<and> (\<forall>y \<in> set pre. entry_matches w today y = Inr False)
         \<and> entry_matches w today x = Inl e
       \<longrightarrow> mystery_movie w =
             (fst (lookup_today w today) @ [DbQuery all_rows_query],
              \<lparr>status = 500,
               body = JObj [(''error'', JStr ''Internal server error''),
                            (''details'', JStr ''Invalid time value'')]\<rparr>)"
  proof (intro allI impI)
    fix rs pre x post e
    assume h: "snd (lookup_today w today) = (None, None)
         \<and> db_err (db_rows w all_rows_query) = None \<and> db_data (db_rows w all_rows_query) = Some rs
         \<and> rs = pre @ x # post
         \<and> (\<forall>y \<in> set pre. entry_matches w today y = Inr False)
         \<and> entry_matches w today x = Inl e"
    then have er: "e = range_error" by (simp add: entry_matches_Inl_iff)
    from h have "find_js (entry_matches w today) rs = Inl e"
      unfolding find_js_Inl_iff by blast
    then show "mystery_movie w =
             (fst (lookup_today w today) @ [DbQuery all_rows_query],
              \<lparr>status = 500,
               body = JObj [(''error'', JStr ''Internal server error''),
                            (''details'', JStr ''Invalid time value'')]\<rparr>)"
      using h mystery_movie_after_scan [of w rs] by (simp add: t er catch_range_error)
  qed
  have f: "\<forall>r. entry_matches w today r = Inr True \<longleftrightarrow>
          truthy (field r ''date'')
          \<and> (case field r ''date'' of
               JStr s \<Rightarrow> split_T_0 s = today
             | d \<Rightarrow> (\<exists>isoString. date_iso w d = Some isoString \<and> split_T_0 isoString = today))"
    by (simp only: entry_matches_True_iff) simp
  have g: "\<forall>r e. entry_matches w today r = Inl e \<longleftrightarrow>
          truthy (field r ''date'') \<and> (\<forall>s. field r ''date'' \<noteq> JStr s)
          \<and> date_iso w (field r ''date'') = None \<and> e = range_error"
    by (simp only: entry_matches_Inl_iff) simp
  have i: "\<forall>r. map_of r ''date'' = None \<or> \<not> truthy (field r ''date'')
          \<longrightarrow> entry_matches w today r = Inr False"
    using entry_matches_absent entry_matches_falsy by blast
  show ?thesis
    by (rule conjI [OF q conjI [OF a conjI [OF a' conjI [OF b conjI [OF c conjI [OF d
          conjI [OF e conjI [OF f conjI [OF g i]]]]]]]]])
qed

theorem full_scan_first_match_unless_throw_witness:
  "mystery_movie (example_world (single_of None) (rows_of mixed_rows)) =
     ([DbQuery (calendar_query ''calendar'' ''*'' ''2024-01-15''),
       DbQuery \<lparr>q_table = ''calendar'', q_columns = ''*'', q_eq = None, q_limit = None,
                q_single = False\<rparr>,
       HttpGet \<lparr>req_url = ''https://api.themoviedb.org/3/movie/550'',
                req_params = [(''api_key'', JStr ''k''), (''language'', JStr ''en-US'')]\<rparr>],
      \<lparr>status = 200, body = JObj [(''date'', JStr ''2024-01-15''), (''movie'', movie_550)]\<rparr>)"
proof -
  let ?w = "example_world (single_of None) (rows_of mixed_rows)"
  let ?x = "[(''id'', JNum 3), (''date'', JNum 1705312800000), (''movie_id'', JNum 550)]"
  have today: "''2024-01-15'' = split_T_0 (now_iso ?w)"
    by (simp add: example_world_def split_T_0_def)
  have l: "lookup_today ?w ''2024-01-15''
             = ([DbQuery (calendar_query ''calendar'' ''*'' ''2024-01-15'')], None, None)"
    by (simp add: lookup_today_def Let_def example_world_def single_of_def)
  have a: "db_err (db_rows ?w all_rows_query) = None
         \<and> db_data (db_rows ?w all_rows_query) = Some mixed_rows"
    by (simp add: example_world_def rows_of_def)
  have s: "mixed_rows =
             [[(''id'', JNum 1), (''movie_id'', JNum 8)],
              [(''id'', JNum 2), (''date'', JStr ''2024-01-14''), (''movie_id'', JNum 7)]]
             @ ?x # [[(''id'', JNum 4), (''date'', JStr ''2024-01-15T00:00:00+00:00''),
                      (''movie_id'', JNum 551)]]"
    by (simp add: mixed_rows_def)
  have pre: "\<forall>y \<in> set [[(''id'', JNum 1), (''movie_id'', JNum 8)],
              [(''id'', JNum 2), (''date'', JStr ''2024-01-14''), (''movie_id'', JNum 7)]].
               entry_matches ?w ''2024-01-15'' y = Inr False"
    by code_simp
  have x: "entry_matches ?w ''2024-01-15'' ?x = Inr True"
    by code_simp
  have r: "respond_today ?w ''2024-01-15'' (Some ?x) None =
             ([HttpGet \<lparr>req_url = ''https://api.themoviedb.org/3/movie/550'',
                req_params = [(''api_key'', JStr ''k''), (''language'', JStr ''en-US'')]\<rparr>],
              Inr \<lparr>status = 200,
                   body = JObj [(''date'', JStr ''2024-01-15''), (''movie'', movie_550)]\<rparr>)"
    by code_simp
  have "mystery_movie ?w =
             (fst (lookup_today ?w ''2024-01-15'') @ [DbQuery all_rows_query]
                @ fst (respond_today ?w ''2024-01-15'' (Some ?x) None),
              case snd (respond_today ?w ''2024-01-15'' (Some ?x) None) of
                Inr rep \<Rightarrow> rep
              | Inl e \<Rightarrow> catch_reply_fallback e)"
  proof -
    note c = full_scan_first_match_unless_throw [OF today, THEN conjunct2, THEN conjunct2,
        THEN conjunct2, THEN conjunct2, THEN conjunct1, rule_format,
        of mixed_rows "[[(''id'', JNum 1), (''movie_id'', JNum 8)],
              [(''id'', JNum 2), (''date'', JStr ''2024-01-14''), (''movie_id'', JNum 7)]]"
           ?x "[[(''id'', JNum 4), (''date'', JStr ''2024-01-15T00:00:00+00:00''),
                      (''movie_id'', JNum 551)]]"]
    have "snd (lookup_today ?w ''2024-01-15'') = (None, None)
         \<and> db_err (db_rows ?w all_rows_query) = None
         \<and> db_data (db_rows ?w all_rows_query) = Some mixed_rows
         \<and> mixed_rows = [[(''id'', JNum 1), (''movie_id'', JNum 8)],
              [(''id'', JNum 2), (''date'', JStr ''2024-01-14''), (''movie_id'', JNum 7)]]
             @ ?x # [[(''id'', JNum 4), (''date'', JStr ''2024-01-15T00:00:00+00:00''),
                      (''movie_id'', JNum 551)]]
         \<and> (\<forall>y \<in> set [[(''id'', JNum 1), (''movie_id'', JNum 8)],
              [(''id'', JNum 2), (''date'', JStr ''2024-01-14''), (''movie_id'', JNum 7)]].
               entry_matches ?w ''2024-01-15'' y = Inr False)
         \<and> entry_matches ?w ''2024-01-15'' ?x = Inr True"
      using l a s pre x by simp
    then show ?thesis by (rule c)
  qed
  then show ?thesis
    by (simp add: l r all_rows_query_def)
qed

text \<open>
  C3, as the spec has it, fails when a row that cannot be dated comes first: the second
  row of the table is dated today, but the first is dated by an object, the conversion
  throws, and the handler answers 500 without selecting any row.
\<close>

theorem full_scan_throwing_row_counterexample:
  "rows_with_object_date ! 1 = [(''id'', JNum 2), (''date'', JStr ''2024-01-15''), (''movie_id'', JNum 550)]
   \<and> split_T_0 ''2024-01-15'' = split_T_0 (now_iso (example_world (single_of None) (rows_of rows_with_object_date)))
   \<and> mystery_movie (example_world (single_of None) (rows_of rows_with_object_date)) =
       ([DbQuery (calendar_query ''calendar'' ''*'' ''2024-01-15''), DbQuery all_rows_query],
        \<lparr>status = 500,
         body = JObj [(''error'', JStr ''Internal server error''),
                      (''details'', JStr ''Invalid time value'')]\<rparr>)"
  by code_simp

section \<open>The bodies sent on success\<close>

lemma mystery_movie_simple_ok:
  "db_err (db_single w (calendar_query ''calendar'' ''movie'' (split_T_0 (now_iso w)))) = None \<Longrightarrow>
   db_data (db_single w (calendar_query ''calendar'' ''movie'' (split_T_0 (now_iso w)))) = Some data \<Longrightarrow>
   truthy (field data ''movie'') \<Longrightarrow>
   tmdb w (details_request w ''en-US'' (field data ''movie'')) = Answer r \<Longrightarrow>
   200 \<le> resp_status r \<and> resp_status r < 300 \<Longrightarrow>
   snd (mystery_movie_simple w) =
     \<lparr>status = 200,
      body = JObj [(''date'', JStr (split_T_0 (now_iso w))), (''movie'', resp_data r)]\<rparr>"
  by (simp add: mystery_movie_simple_def Let_def axios_get_answer)

lemma mystery_movie_ok:
  "db_err (db_single w (calendar_query ''calendar'' ''*'' (split_T_0 (now_iso w)))) = None \<Longrightarrow>
   db_data (db_single w (calendar_query ''calendar'' ''*'' (split_T_0 (now_iso w)))) = Some d \<Longrightarrow>
   truthy (movie_id_of d) \<Longrightarrow>
   tmdb w (details_request w ''en-US'' (movie_id_of d)) = Answer r \<Longrightarrow>
   200 \<le> resp_status r \<and> resp_status r < 300 \<Longrightarrow>
   snd (mystery_movie w) =
     \<lparr>status = 200,
      body = JObj [(''date'', JStr (split_T_0 (now_iso w))), (''movie'', resp_data r)]\<rparr>"
  by (simp add: mystery_movie_row respond_today_def Let_def axios_get_answer)

lemma api_mystery_movie_ok:
  "db_err (db_single w (calendar_query ''calendar'' ''*'' (split_T_0 (now_iso w)))) = None \<Longrightarrow>
   db_data (db_single w (calendar_query ''calendar'' ''*'' (split_T_0 (now_iso w)))) = Some data \<Longrightarrow>
   truthy (field data ''movie'') \<Longrightarrow>
   snd (fetchMovieDetails w (field data ''movie'')) = Inr m \<Longrightarrow>
   snd (api_mystery_movie w) =
     \<lparr>status = 200,
      body = JObj [(''date'', JStr (split_T_0 (now_iso w))),
                   (''quote_en'', field data ''quote_en''),
                   (''quote_pl'', field data ''quote_pl''),
                   (''description'', field data ''description''),
                   (''movie'', m)]\<rparr>"
  by (cases "fetchMovieDetails w (field data ''movie'')")
     (simp add: api_mystery_movie_def Let_def)

lemma sent_date_movie:
  "as_sent (JObj [(''date'', JStr t), (''movie'', m)]) =
     JObj ((''date'', JStr t) # (if m = JUndefined then [] else [(''movie'', as_sent m)]))"
  by simp

lemma sent_display_fields:
  "as_sent (JObj [(''date'', JStr t), (''quote_en'', a), (''quote_pl'', b),
                  (''description'', c), (''movie'', JObj fs)]) =
     JObj ([(''date'', JStr t)]
           @ map (\<lambda>kv. (fst kv, as_sent (snd kv)))
               (filter (\<lambda>kv. snd kv \<noteq> JUndefined)
                  [(''quote_en'', a), (''quote_pl'', b), (''description'', c)])
           @ [(''movie'', as_sent (JObj fs))])"
  by simp

text \<open>
  C7, as the code has it. \<open>GET /mystery_movie\<close> (either version of the handler) succeeds
  when today's row has an identifier and the service answers the details request within
  2xx; it then hands \<open>res.json\<close> the two fields \<open>date\<close> and \<open>movie\<close>, the date today's and the
  movie the payload of the service, and those are the fields of the body sent. \<open>GET
  /api/mystery_movie\<close> succeeds when today's row has a truthy \<open>movie\<close> and
  \<open>fetchMovieDetails\<close> returns; it then hands \<open>res.json\<close> the five fields \<open>date\<close>,
  \<open>quote_en\<close>, \<open>quote_pl\<close>, \<open>description\<close> and \<open>movie\<close>, the movie being the result of
  \<open>fetchMovieDetails\<close>, an object built with a \<open>cast\<close> and a \<open>crew\<close>. The body sent has the
  date, then those of the three display fields that today's row has (one that the row
  lacks is left out), then the movie, and nothing else. In the other direction, an
  answer of status 200 has a body of that shape. Today's date is the part of the clock's
  ISO timestamp before its \<open>T\<close>.
\<close>

theorem success_bodies_as_sent:
  assumes "today = split_T_0 (now_iso w)"
  shows
  "(\<forall>data r.
      db_err (db_single w (calendar_query ''calendar'' ''movie'' today)) = None
      \<and> db_data (db_single w (calendar_query ''calendar'' ''movie'' today)) = Some data
      \<and> truthy (field data ''movie'')
      \<and> tmdb w (details_request w ''en-US'' (field data ''movie'')) = Answer r
      \<and> 200 \<le> resp_status r \<and> resp_status r < 300
    \<longrightarrow> snd (mystery_movie_simple w) =
          \<lparr>status = 200, body = JObj [(''date'', JStr today), (''movie'', resp_data r)]\<rparr>
        \<and> sent_body (snd (mystery_movie_simple w)) =
            JObj ((''date'', JStr today)
                  # (if resp_data r = JUndefined then [] else [(''movie'', as_sent (resp_data r))])))
   \<and> (\<forall>d r.
      db_err (db_single w (calendar_query ''calendar'' ''*'' today)) = None
      \<and> db_data (db_single w (calendar_query ''calendar'' ''*'' today)) = Some d
      \<and> truthy (movie_id_of d)
      \<and> tmdb w (details_request w ''en-US'' (movie_id_of d)) = Answer r
      \<and> 200 \<le> resp_status r \<and> resp_status r < 300
    \<longrightarrow> snd (mystery_movie w) =
          \<lparr>status = 200, body = JObj [(''date'', JStr today), (''movie'', resp_data r)]\<rparr>
        \<and> sent_body (snd (mystery_movie w)) =
            JObj ((''date'', JStr today)
                  # (if resp_data r = JUndefined then [] else [(''movie'', as_sent (resp_data r))])))
   \<and> (\<forall>data m.
      db_err (db_single w (calendar_query ''calendar'' ''*'' today)) = None
      \<and> db_data (db_single w (calendar_query ''calendar'' ''*'' today)) = Some data
      \<and> truthy (field data ''movie'')
      \<and> snd (fetchMovieDetails w (field data ''movie'')) = Inr m
    \<longrightarrow> snd (api_mystery_movie w) =
          \<lparr>status = 200,
           body = JObj [(''date'', JStr today),
                        (''quote_en'', field data ''quote_en''),
                        (''quote_pl'', field data ''quote_pl''),
                        (''description'', field data ''description''),
                        (''movie'', m)]\<rparr>
        \<and> (\<exists>fs. m = JObj fs \<and> ''cast'' \<in> fst ` set fs \<and> ''crew'' \<in> fst ` set fs)
        \<and> sent_body (snd (api_mystery_movie w)) =
            JObj ([(''date'', JStr today)]
                  @ map (\<lambda>kv. (fst kv, as_sent (snd kv)))
                      (filter (\<lambda>kv. snd kv \<noteq> JUndefined)
                         [(''quote_en'', field data ''quote_en''),
                          (''quote_pl'', field data ''quote_pl''),
                          (''description'', field data ''description'')])
                  @ [(''movie'', as_sent m)]))
   \<and> (status (snd (mystery_movie_simple w)) = 200 \<longrightarrow>
      (\<exists>req r. HttpGet req \<in> set (fst (mystery_movie_simple w)) \<and> tmdb w req = Answer r
         \<and> body (snd (mystery_movie_simple w))
             = JObj [(''date'', JStr today), (''movie'', resp_data r)]))
   \<and> (status (snd (mystery_movie w)) = 200 \<longrightarrow>
      (\<exists>req r. HttpGet req \<in> set (fst (mystery_movie w)) \<and> tmdb w req = Answer r
         \<and> body (snd (mystery_movie w))
             = JObj [(''date'', JStr today), (''movie'', resp_data r)]))
   \<and> (status (snd (api_mystery_movie w)) = 200 \<longrightarrow>
      (\<exists>data fs.
           db_data (db_single w (calendar_query ''calendar'' ''*'' today)) = Some data
           \<and> snd (fetchMovieDetails w (field data ''movie'')) = Inr (JObj fs)
           \<and> ''cast'' \<in> fst ` set fs \<and> ''crew'' \<in> fst ` set fs
           \<and> body (snd (api_mystery_movie w))
               = JObj [(''date'', JStr today),
                       (''quote_en'', field data ''quote_en''),
                       (''quote_pl'', field data ''quote_pl''),
                       (''description'', field data ''description''),
                       (''movie'', JObj fs)]))
   \<and> (\<forall>d rest. now_iso w = d @ CHR ''T'' # rest \<and> CHR ''T'' \<notin> set d \<longrightarrow> today = d)"
proof -
  note t = assms
  have a: "\<forall>data r.
      db_err (db_single w (calendar_query ''calendar'' ''movie'' today)) = None
      \<and> db_data (db_single w (calendar_query ''calendar'' ''movie'' today)) = Some data
      \<and> truthy (field data ''movie'')
      \<and> tmdb w (details_request w ''en-US'' (field data ''movie'')) = Answer r
      \<and> 200 \<le> resp_status r \<and> resp_status r < 300
    \<longrightarrow> snd (mystery_movie_simple w) =
          \<lparr>status = 200, body = JObj [(''date'', JStr today), (''movie'', resp_data r)]\<rparr>
        \<and> sent_body (snd (mystery_movie_simple w)) =
            JObj ((''date'', JStr today)
                  # (if resp_data r = JUndefined then [] else [(''movie'', as_sent (resp_data r))]))"
  proof (intro allI impI)
    fix data r
    assume h: "db_err (db_single w (calendar_query ''calendar'' ''movie'' today)) = None
      \<and> db_data (db_single w (calendar_query ''calendar'' ''movie'' today)) = Some data
      \<and> truthy (field data ''movie'')
      \<and> tmdb w (details_request w ''en-US'' (field data ''movie'')) = Answer r
      \<and> 200 \<le> resp_status r \<and> resp_status r < 300"
    then have "snd (mystery_movie_simple w) =
          \<lparr>status = 200, body = JObj [(''date'', JStr today), (''movie'', resp_data r)]\<rparr>"
      using mystery_movie_simple_ok [of w data r] by (simp add: t)
    then show "snd (mystery_movie_simple w) =
          \<lparr>status = 200, body = JObj [(''date'', JStr today), (''movie'', resp_data r)]\<rparr>
        \<and> sent_body (snd (mystery_movie_simple w)) =
            JObj ((''date'', JStr today)
                  # (if resp_data r = JUndefined then [] else [(''movie'', as_sent (resp_data r))]))"
      by (simp add: sent_body_def)
  qed
  have b: "\<forall>d r.
      db_err (db_single w (calendar_query ''calendar'' ''*'' today)) = None
      \<and> db_data (db_single w (calendar_query ''calendar'' ''*'' today)) = Some d
      \<and> truthy (movie_id_of d)
      \<and> tmdb w (details_request w ''en-US'' (movie_id_of d)) = Answer r
      \<and> 200 \<le> resp_status r \<and> resp_status r < 300
    \<longrightarrow> snd (mystery_movie w) =
          \<lparr>status = 200, body = JObj [(''date'', JStr today), (''movie'', resp_data r)]\<rparr>
        \<and> sent_body (snd (mystery_movie w)) =
            JObj ((''date'', JStr today)
                  # (if resp_data r = JUndefined then [] else [(''movie'', as_sent (resp_data r))]))"
  proof (intro allI impI)
    fix d r
    assume h: "db_err (db_single w (calendar_query ''calendar'' ''*'' today)) = None
      \<and> db_data (db_single w (calendar_query ''calendar'' ''*'' today)) = Some d
      \<and> truthy (movie_id_of d)
      \<and> tmdb w (details_request w ''en-US'' (movie_id_of d)) = Answer r
      \<and> 200 \<le> resp_status r \<and> resp_status r < 300"
    then have "snd (mystery_movie w) =
          \<lparr>status = 200, body = JObj [(''date'', JStr today), (''movie'', resp_data r)]\<rparr>"
      using mystery_movie_ok [of w d r] by (simp add: t)
    then show "snd (mystery_movie w) =
          \<lparr>status = 200, body = JObj [(''date'', JStr today), (''movie'', resp_data r)]\<rparr>
        \<and> sent_body (snd (mystery_movie w)) =
            JObj ((''date'', JStr today)
                  # (if resp_data r = JUndefined then [] else [(''movie'', as_sent (resp_data r))]))"
      by (simp add: sent_body_def)
  qed
  have c: "\<forall>data m.
      db_err (db_single w (calendar_query ''calendar'' ''*'' today)) = None
      \<and> db_data (db_single w (calendar_query ''calendar'' ''*'' today)) = Some data
      \<and> truthy (field data ''movie'')
      \<and> snd (fetchMovieDetails w (field data ''movie'')) = Inr m
    \<longrightarrow> snd (api_mystery_movie w) =
          \<lparr>status = 200,
           body = JObj [(''date'', JStr today),
                        (''quote_en'', field data ''quote_en''),
                        (''quote_pl'', field data ''quote_pl''),
                        (''description'', field data ''description''),
                        (''movie'', m)]\<rparr>
        \<and> (\<exists>fs. m = JObj fs \<and> ''cast'' \<in> fst ` set fs \<and> ''crew'' \<in> fst ` set fs)
        \<and> sent_body (snd (api_mystery_movie w)) =
            JObj ([(''date'', JStr today)]
                  @ map (\<lambda>kv. (fst kv, as_sent (snd kv)))
                      (filter (\<lambda>kv. snd kv \<noteq> JUndefined)
                         [(''quote_en'', field data ''quote_en''),
                          (''quote_pl'', field data ''quote_pl''),
                          (''description'', field data ''description'')])
                  @ [(''movie'', as_sent m)])"
  proof (intro allI impI)
    fix data m
    assume h: "db_err (db_single w (calendar_query ''calendar'' ''*'' today)) = None
      \<and> db_data (db_single w (calendar_query ''calendar'' ''*'' today)) = Some data
      \<and> truthy (field data ''movie'')
      \<and> snd (fetchMovieDetails w (field data ''movie'')) = Inr m"
    then have r: "snd (api_mystery_movie w) =
          \<lparr>status = 200,
           body = JObj [(''date'', JStr today),
                        (''quote_en'', field data ''quote_en''),
                        (''quote_pl'', field data ''quote_pl''),
                        (''description'', field data ''description''),
                        (''movie'', m)]\<rparr>"
      using api_mystery_movie_ok [of w data m] by (simp add: t)
    from h obtain fs where fs: "m = JObj fs" "''cast'' \<in> fst ` set fs" "''crew'' \<in> fst ` set fs"
      using fetch_ok_has_cast_crew [of w "field data ''movie''" m] by blast
    have s: "sent_body (snd (api_mystery_movie w)) =
            JObj ([(''date'', JStr today)]
                  @ map (\<lambda>kv. (fst kv, as_sent (snd kv)))
                      (filter (\<lambda>kv. snd kv \<noteq> JUndefined)
                         [(''quote_en'', field data ''quote_en''),
                          (''quote_pl'', field data ''quote_pl''),
                          (''description'', field data ''description'')])
                  @ [(''movie'', as_sent m)])"
      unfolding sent_body_def r fs(1) reply.simps by (rule sent_display_fields)
    from r fs s show "snd (api_mystery_movie w) =
          \<lparr>status = 200,
           body = JObj [(''date'', JStr today),
                        (''quote_en'', field data ''quote_en''),
                        (''quote_pl'', field data ''quote_pl''),
                        (''description'', field data ''description''),
                        (''movie'', m)]\<rparr>
        \<and> (\<exists>fs. m = JObj fs \<and> ''cast'' \<in> fst ` set fs \<and> ''crew'' \<in> fst ` set fs)
        \<and> sent_body (snd (api_mystery_movie w)) =
            JObj ([(''date'', JStr today)]
                  @ map (\<lambda>kv. (fst kv, as_sent (snd kv)))
                      (filter (\<lambda>kv. snd kv \<noteq> JUndefined)
                         [(''quote_en'', field data ''quote_en''),
                          (''quote_pl'', field data ''quote_pl''),
                          (''description'', field data ''description'')])
                  @ [(''movie'', as_sent m)])"
      by blast
  qed
  have d: "status (snd (mystery_movie_simple w)) = 200 \<longrightarrow>
      (\<exists>req r. HttpGet req \<in> set (fst (mystery_movie_simple w)) \<and> tmdb w req = Answer r
         \<and> body (snd (mystery_movie_simple w))
             = JObj [(''date'', JStr today), (''movie'', resp_data r)])"
    using mystery_movie_simple_200 [of w] by (simp add: t)
  have e: "status (snd (mystery_movie w)) = 200 \<longrightarrow>
      (\<exists>req r. HttpGet req \<in> set (fst (mystery_movie w)) \<and> tmdb w req = Answer r
         \<and> body (snd (mystery_movie w))
             = JObj [(''date'', JStr today), (''movie'', resp_data r)])"
    using mystery_movie_200 [of w] by (simp add: t)
  have f: "status (snd (api_mystery_movie w)) = 200 \<longrightarrow>
      (\<exists>data fs.
           db_data (db_single w (calendar_query ''calendar'' ''*'' today)) = Some data
           \<and> snd (fetchMovieDetails w (field data ''movie'')) = Inr (JObj fs)
           \<and> ''cast'' \<in> fst ` set fs \<and> ''crew'' \<in> fst ` set fs
           \<and> body (snd (api_mystery_movie w))
               = JObj [(''date'', JStr today),
                       (''quote_en'', field data ''quote_en''),
                       (''quote_pl'', field data ''quote_pl''),
                       (''description'', field data ''description''),
                       (''movie'', JObj fs)])"
    using api_mystery_movie_200 [of w] by (simp add: t)
  have g: "\<forall>d rest. now_iso w = d @ CHR ''T'' # rest \<and> CHR ''T'' \<notin> set d \<longrightarrow> today = d"
    by (simp add: t split_T_0_date)
  show ?thesis
    by (rule conjI [OF a conjI [OF b conjI [OF c conjI [OF d conjI [OF e conjI [OF f g]]]]]])
qed

theorem success_bodies_as_sent_witness:
  "snd (mystery_movie_simple (example_world (single_of (Some row_with_movie)) (rows_of []))) =
     \<lparr>status = 200, body = JObj [(''date'', JStr ''2024-01-15''), (''movie'', movie_550)]\<rparr>
   \<and> snd (mystery_movie (example_world (single_of (Some row_with_movie_id)) (rows_of []))) =
     \<lparr>status = 200, body = JObj [(''date'', JStr ''2024-01-15''), (''movie'', movie_550)]\<rparr>
   \<and> status (snd (api_mystery_movie (example_world (single_of (Some row_with_movie)) (rows_of [])))) = 200
   \<and> sent_body (snd (api_mystery_movie (example_world (single_of (Some row_with_movie)) (rows_of [])))) =
       JObj [(''date'', JStr ''2024-01-15''),
             (''quote_en'', JStr ''The first rule''),
             (''quote_pl'', JStr ''Pierwsza zasada''),
             (''description'', JNull),
             (''movie'', JObj [(''id'', JNum 550), (''title'', JStr ''Fight Club''),
                               (''cast'', JArr [JStr ''Edward Norton'']),
                               (''crew'', JArr [JStr ''David Fincher''])])]"
proof -
  let ?v = "example_world (single_of (Some row_with_movie_id)) (rows_of [])"
  let ?w = "example_world (single_of (Some row_with_movie)) (rows_of [])"
  let ?m = "JObj [(''id'', JNum 550), (''title'', JStr ''Fight Club''),
                  (''cast'', JArr [JStr ''Edward Norton'']),
                  (''crew'', JArr [JStr ''David Fincher''])]"
  let ?ok = "\<lparr>resp_status = 200, resp_data = movie_550\<rparr>"
  have tv: "''2024-01-15'' = split_T_0 (now_iso ?v)" and tw: "''2024-01-15'' = split_T_0 (now_iso ?w)"
    by (simp_all add: example_world_def split_T_0_def)
  have h1: "db_err (db_single ?w (calendar_query ''calendar'' ''movie'' ''2024-01-15'')) = None
      \<and> db_data (db_single ?w (calendar_query ''calendar'' ''movie'' ''2024-01-15'')) = Some row_with_movie
      \<and> truthy (field row_with_movie ''movie'')
      \<and> tmdb ?w (details_request ?w ''en-US'' (field row_with_movie ''movie'')) = Answer ?ok
      \<and> 200 \<le> resp_status ?ok \<and> resp_status ?ok < 300"
    by code_simp
  have h2: "db_err (db_single ?v (calendar_query ''calendar'' ''*'' ''2024-01-15'')) = None
      \<and> db_data (db_single ?v (calendar_query ''calendar'' ''*'' ''2024-01-15'')) = Some row_with_movie_id
      \<and> truthy (movie_id_of row_with_movie_id)
      \<and> tmdb ?v (details_request ?v ''en-US'' (movie_id_of row_with_movie_id)) = Answer ?ok
      \<and> 200 \<le> resp_status ?ok \<and> resp_status ?ok < 300"
    by code_simp
  have h3: "db_err (db_single ?w (calendar_query ''calendar'' ''*'' ''2024-01-15'')) = None
      \<and> db_data (db_single ?w (calendar_query ''calendar'' ''*'' ''2024-01-15'')) = Some row_with_movie
      \<and> truthy (field row_with_movie ''movie'')
      \<and> snd (fetchMovieDetails ?w (field row_with_movie ''movie'')) = Inr ?m"
    by code_simp
  note a = success_bodies_as_sent [OF tw, THEN conjunct1, rule_format, OF h1]
  note b = success_bodies_as_sent [OF tv, THEN conjunct2, THEN conjunct1, rule_format, OF h2]
  note c = success_bodies_as_sent [OF tw, THEN conjunct2, THEN conjunct2, THEN conjunct1,
      rule_format, OF h3]
  have f: "field row_with_movie ''quote_en'' = JStr ''The first rule''"
    "field row_with_movie ''quote_pl'' = JStr ''Pierwsza zasada''"
    "field row_with_movie ''description'' = JNull"
    by (simp_all add: row_with_movie_def field_def)
  have one: "snd (mystery_movie_simple ?w) =
     \<lparr>status = 200, body = JObj [(''date'', JStr ''2024-01-15''), (''movie'', movie_550)]\<rparr>"
    using a [THEN conjunct1] by (simp add: f row_with_movie_def field_def)
  have two: "snd (mystery_movie ?v) =
     \<lparr>status = 200, body = JObj [(''date'', JStr ''2024-01-15''), (''movie'', movie_550)]\<rparr>"
    using b [THEN conjunct1] by simp
  have three: "status (snd (api_mystery_movie ?w)) = 200"
    using c [THEN conjunct1] by simp
  have four: "sent_body (snd (api_mystery_movie ?w)) =
       JObj [(''date'', JStr ''2024-01-15''),
             (''quote_en'', JStr ''The first rule''),
             (''quote_pl'', JStr ''Pierwsza zasada''),
             (''description'', JNull),
             (''movie'', ?m)]"
    using c [THEN conjunct2, THEN conjunct2] by (simp add: f)
  from one two three four show ?thesis by simp
qed

text \<open>
  C7, as the spec has it, fails for a table without display columns: the request
  succeeds, and the body sent has the fields \<open>date\<close> and \<open>movie\<close> only.
\<close>

theorem missing_display_columns_counterexample:
  "status (snd (api_mystery_movie (example_world (single_of (Some row_movie_only)) (rows_of [])))) = 200
   \<and> sent_body (snd (api_mystery_movie (example_world (single_of (Some row_movie_only)) (rows_of [])))) =
       JObj [(''date'', JStr ''2024-01-15''),
             (''movie'', JObj [(''id'', JNum 550), (''title'', JStr ''Fight Club''),
                               (''cast'', JArr [JStr ''Edward Norton'']),
                               (''crew'', JArr [JStr ''David Fincher''])])]"
  by code_simp

end
